theory Spec2Isabelle
  imports Main "HOL-Library.Log_Nat"
begin

section \<open>Python values of the MPU preparation backend\<close>

subsection \<open>Strings\<close>

text \<open>
  A Python \<open>str\<close> is a sequence of Unicode code points; \<open>len\<close> counts code points.
  A string is modelled as the list of its code points. \<open>str\<close> writes an ASCII literal;
  the few non-ASCII characters of \<open>main.py\<close> are given by their code points
  (\<open>228\<close> a-umlaut, \<open>246\<close> o-umlaut, \<open>252\<close> u-umlaut, \<open>8211\<close> en dash).
\<close>

type_synonym pystr = "nat list"

definition str :: "string \<Rightarrow> pystr" where
  "str s = map of_char s"

text \<open>
  \<open>str.strip()\<close> without argument removes leading and trailing white space. The
  white-space code points of CPython's \<open>str.isspace\<close> are a fixed set.
\<close>

definition isspace :: "nat \<Rightarrow> bool" where
  "isspace c \<longleftrightarrow>
     (9 \<le> c \<and> c \<le> 13) \<or> (28 \<le> c \<and> c \<le> 32) \<or> c = 133 \<or> c = 160 \<or> c = 5760 \<or>
     (8192 \<le> c \<and> c \<le> 8202) \<or> c = 8232 \<or> c = 8233 \<or> c = 8239 \<or> c = 8287 \<or> c = 12288"

definition strip :: "pystr \<Rightarrow> pystr" where
  "strip s = rev (dropWhile isspace (rev (dropWhile isspace s)))"

text \<open>
  \<open>str.lower()\<close> depends on the Unicode case tables of the Python runtime, which are not
  part of the repository: the handlers take it as the parameter \<open>lower\<close>. On strings whose
  code points are all below 256 (Basic Latin and Latin-1 Supplement) it is the map
  \<open>lower_latin1\<close>: \<open>A\<close>..\<open>Z\<close> and the capital letters 192..222 other than the
  multiplication sign 215 move up by 32, every other code point below 256 stays.
  \<open>lower_latin1\<close> is used on such strings only.
\<close>

definition lower_cp :: "nat \<Rightarrow> nat" where
  "lower_cp c = (if (65 \<le> c \<and> c \<le> 90) \<or> (192 \<le> c \<and> c \<le> 222 \<and> c \<noteq> 215) then c + 32 else c)"

definition lower_latin1 :: "pystr \<Rightarrow> pystr" where
  "lower_latin1 s = map lower_cp s"

text \<open>The test \<open>k in s\<close> on strings: \<open>k\<close> occurs in \<open>s\<close> as a contiguous substring.\<close>

fun startswith :: "pystr \<Rightarrow> pystr \<Rightarrow> bool" where
  "startswith s [] = True"
| "startswith [] (k # ks) = False"
| "startswith (c # s) (k # ks) = (c = k \<and> startswith s ks)"

fun contains :: "pystr \<Rightarrow> pystr \<Rightarrow> bool" where
  "contains k [] = (k = [])"
| "contains k (c # s) = (startswith (c # s) k \<or> contains k s)"

text \<open>\<open>sep.join(parts)\<close>.\<close>

fun join :: "pystr \<Rightarrow> pystr list \<Rightarrow> pystr" where
  "join sep [] = []"
| "join sep [p] = p"
| "join sep (p # q # ps) = p @ sep @ join sep (q # ps)"

subsection \<open>Floats\<close>

text \<open>
  A Python \<open>float\<close> is an IEEE 754 binary64 number. A finite float is modelled by the
  rational number it denotes, and every float operation is the exact operation followed by
  \<open>fl\<close>, rounding to the nearest number with a 53-bit significand, ties to the even
  significand. The exponent range is not bounded in the model: the floats of this program
  are quotients, sums and products of list lengths, string lengths and a few constants
  between \<open>0.1\<close> and \<open>120\<close>, far from overflow and from the subnormal range; NaN,
  infinities and the sign of zero do not arise.

  \<open>pow2 k\<close> is the power of two with the integer exponent \<open>k\<close>; \<open>bexp x\<close> is the binary
  exponent of a positive \<open>x\<close>, the \<open>e\<close> with \<open>pow2 e \<le> x < pow2 (e + 1)\<close>; \<open>rhe\<close>
  rounds a rational to the nearest integer, a half to the even neighbour.
\<close>

definition pow2 :: "int \<Rightarrow> rat" where
  "pow2 k = (if 0 \<le> k then 2 ^ nat k else 1 / 2 ^ nat (- k))"

definition bexp :: "rat \<Rightarrow> int" where
  "bexp x = (if 1 \<le> x then bitlen \<lfloor>x\<rfloor> - 1 else - bitlen (\<lceil>1 / x\<rceil> - 1))"

definition rhe :: "rat \<Rightarrow> int" where
  "rhe q = (let f = \<lfloor>q\<rfloor>; d = q - of_int f
            in if d < 1 / 2 then f else if 1 / 2 < d then f + 1
               else if even f then f else f + 1)"

definition fl :: "rat \<Rightarrow> rat" where
  "fl x = (if x = 0 then 0
           else let u = pow2 (bexp \<bar>x\<bar> - 52)
                in sgn x * (of_int (rhe (\<bar>x\<bar> / u)) * u))"

definition fadd :: "rat \<Rightarrow> rat \<Rightarrow> rat" where
  "fadd x y = fl (x + y)"

definition fsub :: "rat \<Rightarrow> rat \<Rightarrow> rat" where
  "fsub x y = fl (x - y)"

definition fmul :: "rat \<Rightarrow> rat \<Rightarrow> rat" where
  "fmul x y = fl (x * y)"

text \<open>An int operand of a float operation is converted to the nearest float first.\<close>

definition float_of_int :: "int \<Rightarrow> rat" where
  "float_of_int n = fl (of_int n)"

text \<open>
  \<open>round(x, 1)\<close> on a float: the exact value of \<open>x\<close> is rounded to one decimal place,
  a half to the even digit, and the decimal result is converted to the nearest float.
\<close>

definition round1 :: "rat \<Rightarrow> rat" where
  "round1 x = fl (of_int (rhe (x * 10)) / 10)"

subsection \<open>Values, dicts and failures\<close>

text \<open>
  The values that occur in request bodies (\<open>answers: List[dict]\<close> holds arbitrary JSON
  objects) and in stored documents (which may carry an \<open>ObjectId\<close>, given by its hex
  string). A \<open>dict\<close> is the list of its items, in insertion order; \<open>dict_get\<close> is
  \<open>d.get(k)\<close>, with \<open>None\<close> for an absent key.
\<close>

datatype pyval =
    PNone
  | PBool bool
  | PInt int
  | PFloat rat
  | PStr pystr
  | PList "pyval list"
  | PDict "(pystr \<times> pyval) list"
  | PObjectId pystr

type_synonym dict = "(pystr \<times> pyval) list"

definition dict_get :: "dict \<Rightarrow> pystr \<Rightarrow> pyval option" where
  "dict_get d k = map_of d k"

text \<open>\<open>d[k] = v\<close>: an existing key keeps its place, a new key goes to the end.\<close>

fun dict_set :: "dict \<Rightarrow> pystr \<Rightarrow> pyval \<Rightarrow> dict" where
  "dict_set [] k v = [(k, v)]"
| "dict_set ((k', v') # d) k v = (if k' = k then (k, v) # d else (k', v') # dict_set d k v)"

text \<open>\<open>del d[k]\<close> for a key that is present.\<close>

definition dict_del :: "dict \<Rightarrow> pystr \<Rightarrow> dict" where
  "dict_del d k = filter (\<lambda>kv. fst kv \<noteq> k) d"

text \<open>
  What a handler can end with instead of a response: the \<open>HTTPException\<close> it raises
  itself (status code and detail), a pydantic \<open>ValidationError\<close> from building a schema
  object, a \<open>TypeError\<close> from \<open>len\<close> of a value that has no length, or a
  \<open>ZeroDivisionError\<close> from a division.
\<close>

datatype failure = HTTPException nat pystr | ValidationError | TypeError | ZeroDivisionError

text \<open>
  \<open>x / y\<close> on floats, and on two ints (true division of ints is correctly rounded too):
  a zero divisor raises, any other gives the rounded quotient.
\<close>

definition truediv :: "rat \<Rightarrow> rat \<Rightarrow> failure + rat" where
  "truediv x y = (if y = 0 then Inl ZeroDivisionError else Inr (fl (x / y)))"

text \<open>Truth value of a Python value, as tested by \<open>if a.get("text")\<close>.\<close>

fun truthy :: "pyval \<Rightarrow> bool" where
  "truthy PNone = False"
| "truthy (PBool b) = b"
| "truthy (PInt i) = (i \<noteq> 0)"
| "truthy (PFloat r) = (r \<noteq> 0)"
| "truthy (PStr s) = (s \<noteq> [])"
| "truthy (PList xs) = (xs \<noteq> [])"
| "truthy (PDict kvs) = (kvs \<noteq> [])"
| "truthy (PObjectId h) = True"

text \<open>\<open>len(v)\<close>: defined for strings, lists and dicts; a \<open>TypeError\<close> for every other value.\<close>

fun py_len :: "pyval \<Rightarrow> failure + nat" where
  "py_len (PStr s) = Inr (length s)"
| "py_len (PList xs) = Inr (length xs)"
| "py_len (PDict kvs) = Inr (length (remdups (map fst kvs)))"
| "py_len v = Inl TypeError"

section \<open>Schemas (\<open>schemas.py\<close>) and the persistence gateway\<close>

record AnalysisReport =
  ar_user_id :: "pystr option"
  ar_input_text :: pystr
  ar_sentiment :: pystr
  ar_risk_score :: rat
  ar_key_themes :: "pystr list"
  ar_recommendations :: "pystr list"

record TrainingSession =
  ts_user_id :: pystr
  ts_status :: pystr
  ts_questions :: "dict list"
  ts_answers :: "dict list option"
  ts_score :: "rat option"
  ts_feedback :: "pystr option"

record ChecklistItem =
  ci_user_id :: pystr
  ci_title :: pystr
  ci_completed :: bool

text \<open>
  Building an \<open>AnalysisReport\<close> validates its fields: \<open>sentiment\<close> is one of three
  literals and \<open>risk_score\<close> has \<open>ge=0, le=1\<close>. The other fields are typed by
  construction. A violation raises \<open>ValidationError\<close>.
\<close>

definition AnalysisReport_new ::
  "pystr option \<Rightarrow> pystr \<Rightarrow> pystr \<Rightarrow> rat \<Rightarrow> pystr list \<Rightarrow> pystr list \<Rightarrow> failure + AnalysisReport" where
  "AnalysisReport_new uid txt sent risk themes recs =
     (if sent \<in> {str ''positive'', str ''neutral'', str ''negative''} \<and> 0 \<le> risk \<and> risk \<le> 1
      then Inr \<lparr>ar_user_id = uid, ar_input_text = txt, ar_sentiment = sent, ar_risk_score = risk,
                ar_key_themes = themes, ar_recommendations = recs\<rparr>
      else Inl ValidationError)"

text \<open>A \<open>TrainingSession\<close> validates \<open>status\<close> against its two literals.\<close>

definition TrainingSession_new ::
  "pystr \<Rightarrow> pystr \<Rightarrow> dict list \<Rightarrow> dict list option \<Rightarrow> rat option \<Rightarrow> pystr option
     \<Rightarrow> failure + TrainingSession" where
  "TrainingSession_new uid status questions answers score feedback =
     (if status \<in> {str ''started'', str ''submitted''}
      then Inr \<lparr>ts_user_id = uid, ts_status = status, ts_questions = questions,
                ts_answers = answers, ts_score = score, ts_feedback = feedback\<rparr>
      else Inl ValidationError)"

datatype document =
    AnalysisReportDoc AnalysisReport
  | TrainingSessionDoc TrainingSession
  | ChecklistItemDoc ChecklistItem

text \<open>
  \<open>database.py\<close> is outside the sources at hand; its two functions are parameters of the
  handlers. A call takes the store \<open>'db\<close> and gives the store after the call together with
  either the exception it raised (\<open>Inl\<close>, an instance of \<open>Exception\<close>, which is what the
  handlers catch) or its return value (\<open>Inr\<close>).
\<close>

type_synonym ('db, 'e, 'i) create_document =
  "pystr \<Rightarrow> document \<Rightarrow> 'db \<Rightarrow> ('e + 'i) \<times> 'db"

type_synonym ('db, 'e) get_documents =
  "pystr \<Rightarrow> dict \<Rightarrow> nat \<Rightarrow> 'db \<Rightarrow> ('e + dict list) \<times> 'db"

section \<open>Text analyzer: \<open>POST /api/analyze\<close>\<close>

text \<open>The request body; its field \<open>text\<close> is \<open>text_in\<close> here.\<close>

record AnalysisInput =
  text_in :: pystr
  user_id :: "pystr option"

record 'i analysis_response =
  sentiment :: pystr
  risk_score :: rat
  key_themes :: "pystr list"
  recommendations :: "pystr list"
  doc_id :: "'i option"

text \<open>The two keywords with an umlaut (code points 252 and 228).\<close>

definition kw_rueckfall :: pystr where
  "kw_rueckfall = str ''r'' @ [252] @ str ''ckfall''"

definition kw_veraendert :: pystr where
  "kw_veraendert = str ''ver'' @ [228] @ str ''ndert''"

definition negative_keywords :: "pystr list" where
  "negative_keywords =
     [str ''angst'', str ''sorge'', str ''problem'', kw_rueckfall,
      str ''unsicher'', str ''stress'', str ''alkohol'', str ''drogen'']"

definition positive_keywords :: "pystr list" where
  "positive_keywords =
     [str ''vorbereitet'', str ''bereit'', str ''besser'', kw_veraendert,
      str ''therapie'', str ''kontrolle'', str ''motivation'']"

text \<open>
  \<open>sum(k in lowered for k in kws)\<close> for one of the two keyword lists: each test adds
  \<open>True\<close> (1) or \<open>False\<close> (0).
\<close>

definition hits :: "pystr list \<Rightarrow> pystr \<Rightarrow> int" where
  "hits kws lowered = sum_list (map (\<lambda>k. of_bool (contains k lowered)) kws)"

definition sentiment_of :: "int \<Rightarrow> int \<Rightarrow> pystr" where
  "sentiment_of neg_hits pos_hits =
     (if pos_hits > neg_hits \<and> pos_hits > 0 then str ''positive''
      else if neg_hits > pos_hits \<and> neg_hits > 0 then str ''negative''
      else str ''neutral'')"

text \<open>\<open>min(1.0, max(0.0, 0.2 + 0.15 * neg_hits - 0.1 * pos_hits))\<close>, in float arithmetic.\<close>

definition risk_score_of :: "int \<Rightarrow> int \<Rightarrow> rat" where
  "risk_score_of neg_hits pos_hits =
     min 1 (max 0 (fsub (fadd (fl (2 / 10)) (fmul (fl (15 / 100)) (float_of_int neg_hits)))
                        (fmul (fl (1 / 10)) (float_of_int pos_hits))))"

definition key_themes_of :: "pystr \<Rightarrow> pystr list" where
  "key_themes_of lowered =
     take 6 (filter (\<lambda>k. contains k lowered) (negative_keywords @ positive_keywords))"

definition rec_counselling :: pystr where
  "rec_counselling = str ''Empfohlen: zus'' @ [228] @ str ''tzliche Beratungsgespr'' @ [228] @
     str ''che und Selbstreflexion zu Risikosituationen''"

definition rec_abstinence :: pystr where
  "rec_abstinence = str ''Dokumentiere Abstinenznachweise und Teilnahme an Programmen''"

definition rec_examples :: pystr where
  "rec_examples = str ''Erarbeite klare Beispiele f'' @ [252] @ str ''r Verhaltens'' @ [228] @
     str ''nderungen''"

definition rec_therapy :: pystr where
  "rec_therapy = str ''Heb hervor, welche konkreten Fortschritte du in der Therapie gemacht hast''"

definition rec_default :: pystr where
  "rec_default =
     str ''Weiter so: strukturiert deine Argumentation mit Ich-Botschaften und konkreten Beispielen''"

definition recs_of :: "rat \<Rightarrow> pystr \<Rightarrow> int \<Rightarrow> pystr list" where
  "recs_of risk lowered pos_hits =
     (let recs = [];
          recs = (if fl (6 / 10) \<le> risk then recs @ [rec_counselling] else recs);
          recs = (if contains (str ''alkohol'') lowered \<or> contains (str ''drogen'') lowered
                  then recs @ [rec_abstinence] else recs);
          recs = (if pos_hits = 0 then recs @ [rec_examples] else recs);
          recs = (if contains (str ''therapie'') lowered then recs @ [rec_therapy] else recs);
          recs = (if recs = [] then recs @ [rec_default] else recs)
      in recs)"

definition analyze_text ::
  "(pystr \<Rightarrow> pystr) \<Rightarrow> ('db, 'e, 'i) create_document \<Rightarrow> AnalysisInput \<Rightarrow> 'db
     \<Rightarrow> (failure + 'i analysis_response) \<times> 'db" where
  "analyze_text lower create_document payload db =
     (let txt = strip (text_in payload) in
      if txt = [] then (Inl (HTTPException 400 (str ''Text cannot be empty'')), db)
      else
        let lowered = lower txt;
            neg_hits = hits negative_keywords lowered;
            pos_hits = hits positive_keywords lowered;
            sent = sentiment_of neg_hits pos_hits;
            risk = risk_score_of neg_hits pos_hits;
            themes = key_themes_of lowered;
            recs = recs_of risk lowered pos_hits
        in case AnalysisReport_new (user_id payload) txt sent risk themes recs of
             Inl err \<Rightarrow> (Inl err, db)
           | Inr report \<Rightarrow>
               (case create_document (str ''analysisreport'') (AnalysisReportDoc report) db of
                  (r, db') \<Rightarrow>
                    (Inr \<lparr>sentiment = sent, risk_score = risk, key_themes = themes,
                          recommendations = recs,
                          doc_id = (case r of Inl e \<Rightarrow> None | Inr i \<Rightarrow> Some i)\<rparr>, db')))"

section \<open>Training session: \<open>POST /api/session/start\<close> and \<open>/api/session/submit\<close>\<close>

record 'i start_response =
  session_id_out :: "'i option"
  questions_out :: "dict list"

definition questions :: "dict list" where
  "questions =
     [[(str ''id'', PInt 1),
       (str ''q'', PStr (str ''Was war der Ausl'' @ [246] @ str ''ser deiner Verkehrsauff'' @ [228] @
                         str ''lligkeit?''))],
      [(str ''id'', PInt 2),
       (str ''q'', PStr (str ''Welche Verhaltens'' @ [228] @
                         str ''nderungen hast du seitdem umgesetzt?''))],
      [(str ''id'', PInt 3),
       (str ''q'', PStr (str ''Wie gehst du heute mit Risikosituationen um?''))]]"

definition start_session ::
  "('db, 'e, 'i) create_document \<Rightarrow> pystr \<Rightarrow> 'db \<Rightarrow> (failure + 'i start_response) \<times> 'db" where
  "start_session create_document start_user_id db =
     (case TrainingSession_new start_user_id (str ''started'') questions None None None of
        Inl err \<Rightarrow> (Inl err, db)
      | Inr session \<Rightarrow>
          (case create_document (str ''trainingsession'') (TrainingSessionDoc session) db of
             (r, db') \<Rightarrow>
               (Inr \<lparr>session_id_out = (case r of Inl e \<Rightarrow> None | Inr i \<Rightarrow> Some i),
                     questions_out = questions\<rparr>, db')))"

record SubmitSessionInput =
  session_id :: "pystr option"
  submit_user_id :: pystr
  answers :: "dict list"

record 'i submit_response =
  score :: rat
  feedback :: pystr
  res_id :: "'i option"

text \<open>\<open>sum(1 for a in answers if a.get("text")) / max(1, len(answers))\<close>.\<close>

definition completeness_of :: "dict list \<Rightarrow> failure + rat" where
  "completeness_of ans =
     truediv (of_nat (length (filter (\<lambda>a. case dict_get a (str ''text'') of
                                           None \<Rightarrow> False | Some v \<Rightarrow> truthy v) ans)))
          (of_int (max 1 (int (length ans))))"

text \<open>
  One term of the depth sum, \<open>min(1.0, len(a.get("text", "")) / 120)\<close>: the default
  \<open>""\<close> stands in for an absent key only, and \<open>len\<close> raises on a value without length.
\<close>

definition depth_term :: "dict \<Rightarrow> failure + rat" where
  "depth_term a =
     (case py_len (case dict_get a (str ''text'') of None \<Rightarrow> PStr [] | Some v \<Rightarrow> v) of
        Inl err \<Rightarrow> Inl err
      | Inr n \<Rightarrow>
          (case truediv (of_nat n) 120 of
             Inl err \<Rightarrow> Inl err
           | Inr q \<Rightarrow> Inr (min 1 q)))"

fun depth_terms :: "dict list \<Rightarrow> failure + rat list" where
  "depth_terms [] = Inr []"
| "depth_terms (a # as) =
     (case depth_term a of
        Inl err \<Rightarrow> Inl err
      | Inr t \<Rightarrow> (case depth_terms as of Inl err \<Rightarrow> Inl err | Inr ts \<Rightarrow> Inr (t # ts)))"

text \<open>
  \<open>sum\<close> of floats: starting from \<open>0\<close>, the items are added from left to right, each
  addition rounded. (Newer CPython versions carry a compensation term through a sum of
  floats; it is zero for the two-item sum of the \<open>kurz\<close> scenario and is not modelled.)
\<close>

definition py_sum :: "rat list \<Rightarrow> rat" where
  "py_sum xs = foldl fadd 0 xs"

definition depth_of :: "dict list \<Rightarrow> failure + rat" where
  "depth_of ans =
     (case depth_terms ans of
        Inl err \<Rightarrow> Inl err
      | Inr ts \<Rightarrow> truediv (py_sum ts) (float_of_int (max 1 (int (length ans)))))"

definition score_of :: "rat \<Rightarrow> rat \<Rightarrow> rat" where
  "score_of completeness depth =
     round1 (fmul (float_of_int 100)
                  (fadd (fmul (fl (4 / 10)) completeness) (fmul (fl (6 / 10)) depth)))"

definition fb_complete :: pystr where
  "fb_complete = str ''Beantworte alle Fragen vollst'' @ [228] @ str ''ndig.''"

definition fb_deeper :: pystr where
  "fb_deeper = str ''Geh tiefer auf Einsichten, Ausl'' @ [246] @ str ''ser und Strategien ein.''"

definition fb_good :: pystr where
  "fb_good = str ''Sehr gut strukturiert '' @ [8211] @ str '' weiter so!''"

definition feedback_of :: "rat \<Rightarrow> rat \<Rightarrow> pystr" where
  "feedback_of completeness depth =
     (let feedback_parts = [];
          feedback_parts = (if completeness < fl (8 / 10)
                            then feedback_parts @ [fb_complete] else feedback_parts);
          feedback_parts = (if depth < fl (6 / 10)
                            then feedback_parts @ [fb_deeper] else feedback_parts);
          feedback_parts = (if feedback_parts = []
                            then feedback_parts @ [fb_good] else feedback_parts)
      in join (str '' '') feedback_parts)"

definition submit_session ::
  "('db, 'e, 'i) create_document \<Rightarrow> SubmitSessionInput \<Rightarrow> 'db
     \<Rightarrow> (failure + 'i submit_response) \<times> 'db" where
  "submit_session create_document payload db =
     (let ans = answers payload in
      case completeness_of ans of
        Inl err \<Rightarrow> (Inl err, db)
      | Inr completeness \<Rightarrow>
          (case depth_of ans of
             Inl err \<Rightarrow> (Inl err, db)
           | Inr depth \<Rightarrow>
               (let sc = score_of completeness depth;
                    fb = feedback_of completeness depth
                in case TrainingSession_new (submit_user_id payload) (str ''submitted'') []
                          (Some ans) (Some sc) (Some fb) of
                     Inl err \<Rightarrow> (Inl err, db)
                   | Inr result \<Rightarrow>
                       (case create_document (str ''trainingsession'')
                               (TrainingSessionDoc result) db of
                          (r, db') \<Rightarrow>
                            (Inr \<lparr>score = sc, feedback = fb,
                                  res_id = (case r of Inl e \<Rightarrow> None | Inr i \<Rightarrow> Some i)\<rparr>,
                             db')))))"

section \<open>Checklist: \<open>GET\<close> and \<open>POST /api/checklist\<close>\<close>

definition stub_checklist :: "dict list" where
  "stub_checklist =
     [[(str ''id'', PStr (str ''1'')),
       (str ''title'', PStr (str ''F'' @ [252] @ str ''hrungszeugnis pr'' @ [252] @ str ''fen'')),
       (str ''completed'', PBool False)],
      [(str ''id'', PStr (str ''2'')),
       (str ''title'', PStr (str ''Abstinenznachweise sammeln'')),
       (str ''completed'', PBool False)],
      [(str ''id'', PStr (str ''3'')),
       (str ''title'', PStr (str ''Probeinterview durchf'' @ [252] @ str ''hren'')),
       (str ''completed'', PBool False)]]"

text \<open>
  The loop body of \<open>get_checklist\<close>: an item with an \<open>_id\<close> other than \<open>None\<close> gets
  \<open>id = str(_id)\<close> and loses \<open>_id\<close>. The builtin \<open>str\<close> on values is the parameter
  \<open>str_of\<close>.
\<close>

definition public_id :: "(pyval \<Rightarrow> pystr) \<Rightarrow> dict \<Rightarrow> dict" where
  "public_id str_of it =
     (case dict_get it (str ''_id'') of
        None \<Rightarrow> it
      | Some PNone \<Rightarrow> it
      | Some v \<Rightarrow> dict_del (dict_set it (str ''id'') (PStr (str_of v))) (str ''_id''))"

definition get_checklist ::
  "(pyval \<Rightarrow> pystr) \<Rightarrow> ('db, 'e) get_documents \<Rightarrow> pystr \<Rightarrow> 'db
     \<Rightarrow> (failure + dict list) \<times> 'db" where
  "get_checklist str_of get_documents uid db =
     (case get_documents (str ''checklistitem'') [(str ''user_id'', PStr uid)] 100 db of
        (Inl e, db') \<Rightarrow> (Inr stub_checklist, db')
      | (Inr items, db') \<Rightarrow> (Inr (map (public_id str_of) items), db'))"

record ChecklistCreate =
  cc_user_id :: pystr
  cc_title :: pystr

record 'i checklist_response =
  item_id :: "'i option"
  title :: pystr
  completed :: bool

definition add_checklist_item ::
  "('db, 'e, 'i) create_document \<Rightarrow> ChecklistCreate \<Rightarrow> 'db
     \<Rightarrow> (failure + 'i checklist_response) \<times> 'db" where
  "add_checklist_item create_document payload db =
     (let item = \<lparr>ci_user_id = cc_user_id payload, ci_title = cc_title payload,
                  ci_completed = False\<rparr>
      in case create_document (str ''checklistitem'') (ChecklistItemDoc item) db of
           (r, db') \<Rightarrow>
             (Inr \<lparr>item_id = (case r of Inl e \<Rightarrow> None | Inr i \<Rightarrow> Some i),
                   title = ci_title item, completed = ci_completed item\<rparr>, db'))"

section \<open>Notions of the specification, and stores to run the handlers on\<close>

text \<open>
  The specification counts a keyword as a hit when it occurs in the lower-cased text as a
  substring. \<open>occurs_in\<close> says so directly, and \<open>keyword_count\<close> is the number of
  keywords of a list that occur; \<open>contains\<close> and \<open>hits\<close> above are what the code
  computes, and the two are shown to agree.
\<close>

definition occurs_in :: "pystr \<Rightarrow> pystr \<Rightarrow> bool" where
  "occurs_in k s \<longleftrightarrow> (\<exists>u v. s = u @ k @ v)"

definition keyword_count :: "pystr list \<Rightarrow> pystr \<Rightarrow> nat" where
  "keyword_count kws s = card {k \<in> set kws. occurs_in k s}"

text \<open>
  Two implementations of \<open>create_document\<close> and two of \<open>get_documents\<close>, for running
  the handlers on concrete requests: a store in memory that appends the document and
  returns its index, a store that is down and raises on every call, and a reachable
  store that holds no checklist item.
\<close>

type_synonym mem_db = "(pystr \<times> document) list"

definition mem_create :: "(mem_db, unit, nat) create_document" where
  "mem_create c d db = (Inr (length db), db @ [(c, d)])"

definition down_create :: "(mem_db, unit, nat) create_document" where
  "down_create c d db = (Inl (), db)"

definition down_get :: "(mem_db, unit) get_documents" where
  "down_get c flt limit db = (Inl (), db)"

definition empty_get :: "(mem_db, unit) get_documents" where
  "empty_get c flt limit db = (Inr [], db)"

text \<open>
  Three requests to run the analyzer on, each with the lower-cased, trimmed text that
  \<open>str.lower\<close> gives for it: a request with two negative and two positive hits, the
  request of the alcohol scenario of the specification, and a request with five negative
  keywords and \<open>vorbereitet\<close>.
\<close>

definition demo_request :: AnalysisInput where
  "demo_request =
     \<lparr>text_in = str ''  Gut vorbereitet, trotz Stress und Angst '', user_id = None\<rparr>"

definition demo_lowered :: pystr where
  "demo_lowered = str ''gut vorbereitet, trotz stress und angst''"

definition alcohol_request :: AnalysisInput where
  "alcohol_request =
     \<lparr>text_in = str ''Ich habe gro'' @ [223] @
                  str ''e Angst und Sorge wegen meines Alkohol-Problems'',
      user_id = None\<rparr>"

definition alcohol_lowered :: pystr where
  "alcohol_lowered =
     str ''ich habe gro'' @ [223] @ str ''e angst und sorge wegen meines alkohol-problems''"

definition crowded_request :: AnalysisInput where
  "crowded_request =
     \<lparr>text_in = str ''Angst, Sorge, Problem, Stress, Alkohol - aber vorbereitet'',
      user_id = None\<rparr>"

definition crowded_lowered :: pystr where
  "crowded_lowered = str ''angst, sorge, problem, stress, alkohol - aber vorbereitet''"

text \<open>
  The builtin \<open>str\<close> on the two kinds of \<open>_id\<close> a store hands out, an \<open>ObjectId\<close>
  (its hex string) and a string (itself). Other values do not occur as \<open>_id\<close>; they are
  sent to the empty string here.
\<close>

definition str_of_id :: "pyval \<Rightarrow> pystr" where
  "str_of_id v = (case v of PObjectId h \<Rightarrow> h | PStr s \<Rightarrow> s | _ \<Rightarrow> [])"

definition termin_item :: ChecklistCreate where
  "termin_item = \<lparr>cc_user_id = str ''u1'', cc_title = str ''Termin vereinbaren''\<rparr>"

definition empty_submission :: SubmitSessionInput where
  "empty_submission = \<lparr>session_id = None, submit_user_id = str ''u1'', answers = []\<rparr>"

text \<open>The submission \<open>answers = [{"text": "kurz"}, {}]\<close>.\<close>

definition kurz_submission :: SubmitSessionInput where
  "kurz_submission =
     \<lparr>session_id = None, submit_user_id = str ''u1'',
      answers = [[(str ''text'', PStr (str ''kurz''))], []]\<rparr>"

text \<open>The values \<open>len\<close> accepts: strings, lists and dicts.\<close>

definition has_len :: "pyval \<Rightarrow> bool" where
  "has_len v \<longleftrightarrow> (case v of PStr s \<Rightarrow> True | PList xs \<Rightarrow> True | PDict kvs \<Rightarrow> True | _ \<Rightarrow> False)"

text \<open>An answer whose \<open>text\<close> is absent or has a length.\<close>

definition text_has_len :: "dict \<Rightarrow> bool" where
  "text_has_len a \<longleftrightarrow> (case dict_get a (str ''text'') of None \<Rightarrow> True | Some v \<Rightarrow> has_len v)"

text \<open>The submission \<open>answers = [{"text": 5}]\<close>.\<close>

definition number_submission :: SubmitSessionInput where
  "number_submission =
     \<lparr>session_id = None, submit_user_id = str ''u1'',
      answers = [[(str ''text'', PInt 5)]]\<rparr>"

section \<open>Substring test and keyword counts\<close>

lemma startswith_iff: "startswith s k \<longleftrightarrow> (\<exists>v. s = k @ v)"
  by (induction s k rule: startswith.induct) auto

lemma contains_iff: "contains k s \<longleftrightarrow> occurs_in k s"
proof (induction s)
  case Nil
  then show ?case by (auto simp: occurs_in_def)
next
  case (Cons c s)
  show ?case
  proof
    assume "contains k (c # s)"
    then consider "startswith (c # s) k" | "contains k s" by auto
    then show "occurs_in k (c # s)"
    proof cases
      case 1
      then obtain v where "c # s = k @ v" by (auto simp: startswith_iff)
      then have "c # s = [] @ k @ v" by simp
      then show ?thesis unfolding occurs_in_def by blast
    next
      case 2
      with Cons obtain u v where "s = u @ k @ v" by (auto simp: occurs_in_def)
      then have "c # s = (c # u) @ k @ v" by simp
      then show ?thesis unfolding occurs_in_def by blast
    qed
  next
    assume "occurs_in k (c # s)"
    then obtain u v where uv: "c # s = u @ k @ v" by (auto simp: occurs_in_def)
    show "contains k (c # s)"
    proof (cases u)
      case Nil
      with uv have "startswith (c # s) k" by (auto simp: startswith_iff)
      then show ?thesis by simp
    next
      case (Cons a u')
      with uv have "s = u' @ k @ v" by simp
      then have "occurs_in k s" unfolding occurs_in_def by blast
      with Cons.IH show ?thesis by simp
    qed
  qed
qed

lemma hits_filter: "hits kws s = int (length (filter (\<lambda>k. contains k s) kws))"
  unfolding hits_def by (induction kws) auto

lemma hits_count:
  assumes "distinct kws"
  shows "hits kws s = int (keyword_count kws s)"
proof -
  have "card (set (filter (\<lambda>k. contains k s) kws)) = length (filter (\<lambda>k. contains k s) kws)"
    by (rule distinct_card) (simp add: assms)
  then show ?thesis
    by (simp add: hits_filter keyword_count_def contains_iff)
qed

lemma length_filter_keyword_count:
  assumes "distinct kws"
  shows "length (filter (\<lambda>k. contains k s) kws) = keyword_count kws s"
  using hits_count [OF assms, of s] by (simp add: hits_filter)

lemma distinct_negative_keywords: "distinct negative_keywords"
  by code_simp

lemma distinct_positive_keywords: "distinct positive_keywords"
  by code_simp

lemma length_negative_keywords: "length negative_keywords = 8"
  by (simp add: negative_keywords_def)

lemma length_positive_keywords: "length positive_keywords = 7"
  by (simp add: positive_keywords_def)

subsection \<open>One keyword inside another\<close>

lemma vorbereitet_bereit:
  assumes "occurs_in (str ''vorbereitet'') s"
  shows "occurs_in (str ''bereit'') s"
proof -
  from assms obtain u v where "s = u @ str ''vorbereitet'' @ v"
    by (auto simp: occurs_in_def)
  moreover have "str ''vorbereitet'' = str ''vor'' @ str ''bereit'' @ str ''et''"
    by (simp add: str_def)
  ultimately have "s = (u @ str ''vor'') @ str ''bereit'' @ (str ''et'' @ v)"
    by simp
  then show ?thesis unfolding occurs_in_def by blast
qed

lemma positive_keywords_head:
  "positive_keywords = str ''vorbereitet'' # str ''bereit'' # drop 2 positive_keywords"
  by (simp add: positive_keywords_def)

lemma positive_not_negative:
  "str ''vorbereitet'' \<notin> set negative_keywords" "str ''bereit'' \<notin> set negative_keywords"
  "str ''bereit'' \<noteq> str ''vorbereitet''"
  by (simp_all add: negative_keywords_def str_def kw_rueckfall_def)

lemma key_themes_with_vorbereitet:
  assumes "occurs_in (str ''vorbereitet'') s"
  defines "A \<equiv> filter (\<lambda>k. contains k s) negative_keywords"
  shows "\<exists>R. key_themes_of s = take 6 (A @ str ''vorbereitet'' # str ''bereit'' # R) \<and>
             filter (\<lambda>k. contains k s) positive_keywords = str ''vorbereitet'' # str ''bereit'' # R"
proof -
  have v: "contains (str ''vorbereitet'') s" and b: "contains (str ''bereit'') s"
    using assms(1) vorbereitet_bereit by (simp_all add: contains_iff)
  have "filter (\<lambda>k. contains k s) positive_keywords =
          str ''vorbereitet'' # str ''bereit'' # filter (\<lambda>k. contains k s) (drop 2 positive_keywords)"
    by (subst positive_keywords_head) (simp add: v b)
  then show ?thesis
    by (simp add: key_themes_of_def A_def)
qed

section \<open>The handlers, unfolded\<close>

lemma risk_score_of_range: "0 \<le> risk_score_of n p \<and> risk_score_of n p \<le> 1"
  by (simp add: risk_score_of_def)

lemma sentiment_of_literal:
  "sentiment_of n p \<in> {str ''positive'', str ''neutral'', str ''negative''}"
  by (simp add: sentiment_of_def)

lemma str_literals_distinct:
  "str ''positive'' \<noteq> str ''negative''" "str ''positive'' \<noteq> str ''neutral''"
  "str ''negative'' \<noteq> str ''neutral''" "str ''negative'' \<noteq> str ''positive''"
  "str ''neutral'' \<noteq> str ''positive''" "str ''neutral'' \<noteq> str ''negative''"
  by (simp_all add: str_def)

lemma analyze_text_nonempty:
  assumes "strip (text_in payload) \<noteq> []"
  shows "analyze_text lower create_document payload db =
    (let txt = strip (text_in payload);
         lowered = lower txt;
         neg_hits = hits negative_keywords lowered;
         pos_hits = hits positive_keywords lowered;
         risk = risk_score_of neg_hits pos_hits;
         r = create_document (str ''analysisreport'')
               (AnalysisReportDoc \<lparr>ar_user_id = user_id payload, ar_input_text = txt,
                  ar_sentiment = sentiment_of neg_hits pos_hits, ar_risk_score = risk,
                  ar_key_themes = key_themes_of lowered,
                  ar_recommendations = recs_of risk lowered pos_hits\<rparr>) db
     in (Inr \<lparr>sentiment = sentiment_of neg_hits pos_hits, risk_score = risk,
              key_themes = key_themes_of lowered,
              recommendations = recs_of risk lowered pos_hits,
              doc_id = (case fst r of Inl e \<Rightarrow> None | Inr i \<Rightarrow> Some i)\<rparr>, snd r))"
  using assms sentiment_of_literal [of "hits negative_keywords (lower (strip (text_in payload)))"
      "hits positive_keywords (lower (strip (text_in payload)))"]
    risk_score_of_range [of "hits negative_keywords (lower (strip (text_in payload)))"
      "hits positive_keywords (lower (strip (text_in payload)))"]
  by (simp add: analyze_text_def AnalysisReport_new_def Let_def split: prod.splits)

lemma fst_analyze_text:
  assumes "strip (text_in payload) \<noteq> []"
  shows "fst (analyze_text lower create_document payload db) =
    Inr \<lparr>sentiment = sentiment_of (hits negative_keywords (lower (strip (text_in payload))))
                                  (hits positive_keywords (lower (strip (text_in payload)))),
         risk_score = risk_score_of (hits negative_keywords (lower (strip (text_in payload))))
                                    (hits positive_keywords (lower (strip (text_in payload)))),
         key_themes = key_themes_of (lower (strip (text_in payload))),
         recommendations =
           recs_of (risk_score_of (hits negative_keywords (lower (strip (text_in payload))))
                                  (hits positive_keywords (lower (strip (text_in payload)))))
                   (lower (strip (text_in payload)))
                   (hits positive_keywords (lower (strip (text_in payload)))),
         doc_id = (case fst (create_document (str ''analysisreport'')
                      (AnalysisReportDoc
                        \<lparr>ar_user_id = user_id payload, ar_input_text = strip (text_in payload),
                         ar_sentiment =
                           sentiment_of (hits negative_keywords (lower (strip (text_in payload))))
                                        (hits positive_keywords (lower (strip (text_in payload)))),
                         ar_risk_score =
                           risk_score_of (hits negative_keywords (lower (strip (text_in payload))))
                                         (hits positive_keywords (lower (strip (text_in payload)))),
                         ar_key_themes = key_themes_of (lower (strip (text_in payload))),
                         ar_recommendations =
                           recs_of (risk_score_of (hits negative_keywords (lower (strip (text_in payload))))
                                                  (hits positive_keywords (lower (strip (text_in payload)))))
                                   (lower (strip (text_in payload)))
                                   (hits positive_keywords (lower (strip (text_in payload))))\<rparr>) db)
                   of Inl e \<Rightarrow> None | Inr i \<Rightarrow> Some i)\<rparr>"
  by (simp add: analyze_text_nonempty [OF assms] Let_def)

lemma TrainingSession_new_ok:
  "TrainingSession_new u (str ''started'') qs a sc fb =
     Inr \<lparr>ts_user_id = u, ts_status = str ''started'', ts_questions = qs, ts_answers = a,
          ts_score = sc, ts_feedback = fb\<rparr>"
  "TrainingSession_new u (str ''submitted'') qs a sc fb =
     Inr \<lparr>ts_user_id = u, ts_status = str ''submitted'', ts_questions = qs, ts_answers = a,
          ts_score = sc, ts_feedback = fb\<rparr>"
  by (simp_all add: TrainingSession_new_def)

section \<open>Float arithmetic\<close>

subsection \<open>Powers of two\<close>

lemma pow2_powi: "pow2 k = 2 powi k"
  by (simp add: pow2_def power_int_def power_inverse inverse_eq_divide power_divide)

lemma pow2_pos: "0 < pow2 k"
  by (simp add: pow2_powi)

lemma pow2_add: "pow2 (a + b) = pow2 a * pow2 b"
  by (simp add: pow2_powi power_int_add)

lemma pow2_nonneg_exp: "0 \<le> k \<Longrightarrow> pow2 k = of_int (2 ^ nat k)"
  by (simp add: pow2_def)

lemma pow2_less: "a < b \<Longrightarrow> pow2 a < pow2 b"
  unfolding pow2_powi by (rule power_int_strict_increasing) simp_all

lemma pow2_le: "a \<le> b \<Longrightarrow> pow2 a \<le> pow2 b"
  unfolding pow2_powi by (rule power_int_increasing) simp_all

lemma pow2_less_D: "pow2 a < pow2 b \<Longrightarrow> a < b"
  using pow2_le [of b a] by (cases "a < b") auto

lemma pow2_minus: "pow2 (- k) = 1 / pow2 k"
proof -
  have "pow2 (- k) * pow2 k = 1"
    using pow2_add [of "- k" k] by (simp add: pow2_def)
  then show ?thesis
    using pow2_pos [of k] by (simp add: field_simps)
qed

lemma pow2_53: "pow2 53 = of_int (2 ^ 53)"
  by (simp add: pow2_def)

lemma pow2_52: "pow2 52 = of_int (2 ^ 52)"
  by (simp add: pow2_def)

subsection \<open>The binary exponent\<close>

lemma bitlen_pos: "0 < x \<Longrightarrow> 1 \<le> bitlen x"
  using bitlen_eq_zero_iff [of x] bitlen_nonneg [of x] by linarith

lemma bexp_bounds:
  assumes "0 < x"
  shows "pow2 (bexp x) \<le> x \<and> x < pow2 (bexp x + 1)"
proof (cases "1 \<le> x")
  case True
  define f where "f = \<lfloor>x\<rfloor>"
  define b where "b = bitlen f"
  from True have f1: "1 \<le> f" by (simp add: f_def le_floor_iff)
  then have b1: "1 \<le> b" unfolding b_def by (intro bitlen_pos) simp
  from f1 have bounds: "2 ^ nat (b - 1) \<le> f" "f < 2 ^ nat b"
    using bitlen_bounds [of f] by (simp_all add: b_def)
  have e: "bexp x = b - 1"
    using True by (simp add: bexp_def f_def b_def)
  have "pow2 (b - 1) = of_int (2 ^ nat (b - 1))"
    using b1 by (intro pow2_nonneg_exp) simp
  also have "\<dots> \<le> of_int f"
    using bounds(1) by (simp only: of_int_le_iff)
  also have "\<dots> \<le> x"
    by (simp add: f_def)
  finally have lower: "pow2 (b - 1) \<le> x" .
  have "x < of_int (f + 1)"
    unfolding f_def using floor_correct [of x] by simp
  also have "\<dots> \<le> of_int (2 ^ nat b)"
    using bounds(2) by (simp only: of_int_le_iff)
  also have "\<dots> = pow2 b"
    using b1 by (simp add: pow2_nonneg_exp)
  finally have upper: "x < pow2 b" .
  from lower upper e show ?thesis by simp
next
  case False
  define y where "y = 1 / x"
  define m where "m = \<lceil>y\<rceil> - 1"
  define b where "b = bitlen m"
  from False assms have y1: "1 < y" by (simp add: y_def)
  then have "1 < \<lceil>y\<rceil>" by (simp add: less_ceiling_iff)
  then have m1: "1 \<le> m" by (simp add: m_def)
  then have b1: "1 \<le> b" unfolding b_def by (intro bitlen_pos) simp
  from m1 have bounds: "2 ^ nat (b - 1) \<le> m" "m < 2 ^ nat b"
    using bitlen_bounds [of m] by (simp_all add: b_def)
  have e: "bexp x = - b"
    using False by (simp add: bexp_def y_def m_def b_def)
  have "y \<le> of_int (m + 1)"
    by (simp add: m_def)
  also have "\<dots> \<le> of_int (2 ^ nat b)"
    using bounds(2) by (simp only: of_int_le_iff)
  also have "\<dots> = pow2 b"
    using b1 by (simp add: pow2_nonneg_exp)
  finally have "1 / x \<le> pow2 b" by (simp add: y_def)
  then have lower: "pow2 (- b) \<le> x"
    using assms pow2_pos [of b] by (simp add: pow2_minus field_simps)
  have "pow2 (b - 1) = of_int (2 ^ nat (b - 1))"
    using b1 by (intro pow2_nonneg_exp) simp
  also have "\<dots> \<le> of_int m"
    using bounds(1) by (simp only: of_int_le_iff)
  also have "\<dots> < y"
    unfolding m_def using ceiling_correct [of y] by simp
  finally have "pow2 (b - 1) < 1 / x" by (simp add: y_def)
  then have "x < 1 / pow2 (b - 1)"
    using assms pow2_pos [of "b - 1"] by (simp add: field_simps)
  then have upper: "x < pow2 (- b + 1)"
    using pow2_minus [of "b - 1"] by simp
  from lower upper e show ?thesis by simp
qed

lemma bexp_unique:
  assumes "0 < x" "pow2 e \<le> x" "x < pow2 (e + 1)"
  shows "bexp x = e"
proof -
  from bexp_bounds [OF assms(1)] have "pow2 (bexp x) \<le> x" "x < pow2 (bexp x + 1)"
    by simp_all
  with assms have "pow2 e < pow2 (bexp x + 1)" "pow2 (bexp x) < pow2 (e + 1)"
    by linarith+
  then have "e < bexp x + 1" "bexp x < e + 1"
    by (auto dest: pow2_less_D)
  then show ?thesis by simp
qed

subsection \<open>Rounding to the nearest integer\<close>

lemma rhe_le:
  assumes "q \<le> of_int k"
  shows "rhe q \<le> k"
proof (cases "q = of_int \<lfloor>q\<rfloor>")
  case True
  then have "rhe q = \<lfloor>q\<rfloor>" by (simp add: rhe_def Let_def)
  with assms show ?thesis by (simp add: floor_le_iff)
next
  case False
  then have "of_int \<lfloor>q\<rfloor> < q"
    using of_int_floor_le [of q] by linarith
  with assms have "\<lfloor>q\<rfloor> < k"
    by (metis less_le_trans of_int_less_iff)
  moreover have "rhe q \<le> \<lfloor>q\<rfloor> + 1"
    by (simp add: rhe_def Let_def)
  ultimately show ?thesis by simp
qed

lemma rhe_ge:
  assumes "of_int k \<le> q"
  shows "k \<le> rhe q"
proof -
  from assms have "k \<le> \<lfloor>q\<rfloor>" by (simp add: le_floor_iff)
  moreover have "\<lfloor>q\<rfloor> \<le> rhe q" by (simp add: rhe_def Let_def)
  ultimately show ?thesis by simp
qed

lemma rhe_near:
  assumes "\<bar>q - of_int k\<bar> < 1 / 2"
  shows "rhe q = k"
proof (cases "of_int k \<le> q")
  case True
  with assms have "\<lfloor>q\<rfloor> = k" by (intro floor_unique) (simp_all add: abs_less_iff)
  with assms True show ?thesis by (simp add: rhe_def Let_def abs_less_iff)
next
  case False
  with assms have "\<lfloor>q\<rfloor> = k - 1" by (intro floor_unique) (simp_all add: abs_less_iff)
  with assms False show ?thesis by (simp add: rhe_def Let_def abs_less_iff)
qed

lemma rhe_tie_even:
  assumes "q = of_int k + 1 / 2" "even k"
  shows "rhe q = k"
proof -
  from assms have "\<lfloor>q\<rfloor> = k" by (intro floor_unique) simp_all
  with assms show ?thesis by (simp add: rhe_def Let_def)
qed

lemma rhe_tie_up:
  assumes "q = of_int k - 1 / 2" "even k"
  shows "rhe q = k"
proof -
  from assms have "\<lfloor>q\<rfloor> = k - 1" by (intro floor_unique) simp_all
  with assms show ?thesis by (simp add: rhe_def Let_def)
qed

lemma rhe_le_half_even:
  assumes "q \<le> of_int k + 1 / 2" "even k"
  shows "rhe q \<le> k"
proof (cases "q \<le> of_int k")
  case True
  then show ?thesis by (rule rhe_le)
next
  case False
  with assms have "\<lfloor>q\<rfloor> = k" by (intro floor_unique) simp_all
  with assms False show ?thesis by (simp add: rhe_def Let_def)
qed

subsection \<open>Rounding to a float\<close>

lemma fl_pos:
  "0 < x \<Longrightarrow> fl x = of_int (rhe (x / pow2 (bexp x - 52))) * pow2 (bexp x - 52)"
  by (simp add: fl_def Let_def)

lemma fl_zero: "fl 0 = 0"
  by (simp add: fl_def)

lemma fl_nonneg:
  assumes "0 \<le> x"
  shows "0 \<le> fl x"
proof (cases "x = 0")
  case True
  then show ?thesis by (simp add: fl_zero)
next
  case False
  with assms have x: "0 < x" by simp
  have "of_int 0 \<le> x / pow2 (bexp x - 52)"
    using x pow2_pos [of "bexp x - 52"] by simp
  then have "0 \<le> rhe (x / pow2 (bexp x - 52))"
    by (rule rhe_ge)
  then show ?thesis
    using pow2_pos [of "bexp x - 52"] by (simp add: fl_pos [OF x])
qed

lemma fl_minus: "fl (- x) = - fl x"
  by (simp add: fl_def Let_def)

lemma fl_nonpos:
  assumes "x \<le> 0"
  shows "fl x \<le> 0"
proof -
  from assms have "0 \<le> fl (- x)" by (intro fl_nonneg) simp
  then show ?thesis by (simp add: fl_minus)
qed

text \<open>
  Evaluation of \<open>fl\<close> at a given number: with the exponent \<open>e\<close> and the significand
  \<open>k\<close> at hand, three comparisons of rationals settle the value. The second and third
  rule are for a number half-way between two floats, which goes to the even significand.
\<close>

lemma fl_eval:
  assumes "0 < x" "pow2 e \<le> x" "x < pow2 (e + 1)"
    and "\<bar>x / pow2 (e - 52) - of_int k\<bar> < 1 / 2"
  shows "fl x = of_int k * pow2 (e - 52)"
  using assms by (simp add: fl_pos bexp_unique [OF assms(1-3)] rhe_near)

lemma fl_eval_tie:
  assumes "0 < x" "pow2 e \<le> x" "x < pow2 (e + 1)"
    and "x / pow2 (e - 52) = of_int k + 1 / 2" "even k"
  shows "fl x = of_int k * pow2 (e - 52)"
  using assms by (simp add: fl_pos bexp_unique [OF assms(1-3)] rhe_tie_even)

lemma fl_eval_tie_up:
  assumes "0 < x" "pow2 e \<le> x" "x < pow2 (e + 1)"
    and "x / pow2 (e - 52) = of_int k - 1 / 2" "even k"
  shows "fl x = of_int k * pow2 (e - 52)"
  using assms by (simp add: fl_pos bexp_unique [OF assms(1-3)] rhe_tie_up)

text \<open>
  A float \<open>m * 2\<^sup>k\<close> with a significand below \<open>2\<^sup>5\<^sup>3\<close> is a bound that rounding
  keeps, from above and from below; so rounding is monotone against floats, and
  a float rounds to itself.
\<close>

lemma float_grid:
  assumes "0 < m" "m < 2 ^ 53" "pow2 e \<le> of_int m * pow2 k"
  shows "\<exists>n. of_int m * pow2 k = of_int n * pow2 (e - 52)"
proof -
  have "of_int m * pow2 k < of_int (2 ^ 53) * pow2 k"
    using assms(2) pow2_pos [of k] by (intro mult_strict_right_mono) (simp_all only: of_int_less_iff)
  also have "\<dots> = pow2 (53 + k)"
    by (simp only: pow2_add pow2_53)
  finally have "pow2 e < pow2 (53 + k)"
    using assms(3) by simp
  then have j: "0 \<le> k - (e - 52)"
    by (auto dest: pow2_less_D)
  have "pow2 k = pow2 ((k - (e - 52)) + (e - 52))"
    by simp
  also have "\<dots> = of_int (2 ^ nat (k - (e - 52))) * pow2 (e - 52)"
    unfolding pow2_add using j by (simp add: pow2_nonneg_exp)
  finally have "of_int m * pow2 k = of_int (m * 2 ^ nat (k - (e - 52))) * pow2 (e - 52)"
    by simp
  then show ?thesis ..
qed

lemma fl_le_float:
  assumes "0 < m" "m < 2 ^ 53" "x \<le> of_int m * pow2 k"
  shows "fl x \<le> of_int m * pow2 k"
proof (cases "0 < x")
  case False
  then have "fl x \<le> 0" by (intro fl_nonpos) simp
  moreover have "0 < of_int m * pow2 k"
    using assms(1) pow2_pos [of k] by simp
  ultimately show ?thesis by simp
next
  case True
  define u where "u = pow2 (bexp x - 52)"
  have u: "0 < u" by (simp add: u_def pow2_pos)
  from bexp_bounds [OF True] assms(3) have "pow2 (bexp x) \<le> of_int m * pow2 k"
    by simp
  from float_grid [OF assms(1,2) this] obtain n where n: "of_int m * pow2 k = of_int n * u"
    unfolding u_def by blast
  with assms(3) u have "x / u \<le> of_int n"
    by (simp add: pos_divide_le_eq)
  then have "rhe (x / u) \<le> n" by (rule rhe_le)
  then have "of_int (rhe (x / u)) * u \<le> of_int n * u"
    using u by (intro mult_right_mono) simp_all
  then show ?thesis
    by (simp add: fl_pos [OF True] u_def [symmetric] n)
qed

lemma fl_ge_float:
  assumes "0 < m" "m < 2 ^ 53" "of_int m * pow2 k \<le> x"
  shows "of_int m * pow2 k \<le> fl x"
proof -
  have c: "0 < of_int m * pow2 k"
    using assms(1) pow2_pos [of k] by simp
  with assms(3) have x: "0 < x" by simp
  define u where "u = pow2 (bexp x - 52)"
  have u: "0 < u" by (simp add: u_def pow2_pos)
  have fx: "fl x = of_int (rhe (x / u)) * u"
    by (simp add: fl_pos [OF x] u_def)
  show ?thesis
  proof (cases "pow2 (bexp x) \<le> of_int m * pow2 k")
    case True
    from float_grid [OF assms(1,2) this] obtain n where n: "of_int m * pow2 k = of_int n * u"
      unfolding u_def by blast
    with assms(3) u have "of_int n \<le> x / u"
      by (simp add: pos_le_divide_eq)
    then have "n \<le> rhe (x / u)" by (rule rhe_ge)
    then have "of_int n * u \<le> of_int (rhe (x / u)) * u"
      using u by (intro mult_right_mono) simp_all
    then show ?thesis by (simp add: fx n)
  next
    case False
    have "pow2 (bexp x) = pow2 52 * u"
      using pow2_add [of 52 "bexp x - 52"] by (simp add: u_def)
    also have "\<dots> = of_int (2 ^ 52) * u"
      by (simp only: pow2_52)
    finally have g: "pow2 (bexp x) = of_int (2 ^ 52) * u" .
    with bexp_bounds [OF x] u have "of_int (2 ^ 52) \<le> x / u"
      by (simp add: pos_le_divide_eq)
    then have "2 ^ 52 \<le> rhe (x / u)" by (rule rhe_ge)
    then have "(of_int (2 ^ 52) :: rat) \<le> of_int (rhe (x / u))"
      by (simp only: of_int_le_iff)
    then have "of_int (2 ^ 52) * u \<le> of_int (rhe (x / u)) * u"
      using u by (intro mult_right_mono) simp_all
    with False show ?thesis by (simp add: fx g)
  qed
qed

lemma fl_float:
  assumes "0 < m" "m < 2 ^ 53"
  shows "fl (of_int m * pow2 k) = of_int m * pow2 k"
  using fl_le_float [OF assms, of "of_int m * pow2 k" k] fl_ge_float [OF assms, of k "of_int m * pow2 k"]
  by simp

subsection \<open>Bounds that rounding keeps\<close>

lemma fl_le_one: "x \<le> 1 \<Longrightarrow> fl x \<le> 1"
  using fl_le_float [of 1 x 0] by (simp add: pow2_def)

lemma fl_le_nat:
  assumes "0 < n" "n \<le> 2 ^ 53" "x \<le> of_nat n"
  shows "fl x \<le> of_nat n"
proof (cases "n = 2 ^ 53")
  case True
  then have "(of_nat n :: rat) = of_int (2 ^ 52) * pow2 1"
    by (simp add: pow2_def)
  with assms(3) fl_le_float [of "2 ^ 52" x 1] show ?thesis by simp
next
  case False
  with assms(2) have "int n < 2 ^ 53" by simp
  with assms(1,3) fl_le_float [of "int n" x 0] show ?thesis
    by (simp add: pow2_def)
qed

lemma fl_ge_nat:
  assumes "0 < n" "n \<le> 2 ^ 53" "of_nat n \<le> x"
  shows "of_nat n \<le> fl x"
proof (cases "n = 2 ^ 53")
  case True
  then have "(of_nat n :: rat) = of_int (2 ^ 52) * pow2 1"
    by (simp add: pow2_def)
  with assms(3) fl_ge_float [of "2 ^ 52" 1 x] show ?thesis by simp
next
  case False
  with assms(2) have "int n < 2 ^ 53" by simp
  with assms(1,3) fl_ge_float [of "int n" 0 x] show ?thesis
    by (simp add: pow2_def)
qed

lemma fl_saturates:
  assumes "x \<le> 2 ^ 53 + 1"
  shows "fl x \<le> 2 ^ 53"
proof (cases "x \<le> 2 ^ 53")
  case True
  with fl_le_float [of "2 ^ 52" x 1] show ?thesis
    by (simp add: pow2_def)
next
  case False
  then have x: "0 < x" "pow2 53 \<le> x" "x < pow2 (53 + 1)"
    using assms by (simp_all add: pow2_def)
  have e: "bexp x = 53"
    by (rule bexp_unique [OF x])
  have "x / 2 \<le> of_int (2 ^ 52) + 1 / 2"
    using assms by simp
  then have "rhe (x / 2) \<le> 2 ^ 52"
    by (rule rhe_le_half_even) simp
  then have "(of_int (rhe (x / 2)) :: rat) \<le> of_int (2 ^ 52)"
    by (simp only: of_int_le_iff)
  then show ?thesis
    by (simp add: fl_pos [OF x(1)] e pow2_def)
qed

lemma foldl_fadd_bound:
  assumes "\<forall>x \<in> set xs. 0 \<le> x \<and> x \<le> 1" "0 \<le> s" "s \<le> 2 ^ 53" "s \<le> of_nat a"
  shows "0 \<le> foldl fadd s xs \<and> foldl fadd s xs \<le> 2 ^ 53 \<and>
         foldl fadd s xs \<le> of_nat (a + length xs)"
  using assms
proof (induction xs arbitrary: s a)
  case Nil
  then show ?case by simp
next
  case (Cons x xs)
  from Cons.prems have x: "0 \<le> x" "x \<le> 1" by simp_all
  have 1: "0 \<le> fadd s x"
    unfolding fadd_def using Cons.prems(2) x by (intro fl_nonneg) simp
  have 2: "fadd s x \<le> 2 ^ 53"
    unfolding fadd_def using Cons.prems(3) x by (intro fl_saturates) simp
  have 3: "fadd s x \<le> of_nat (Suc a)"
  proof (cases "Suc a \<le> 2 ^ 53")
    case True
    have "s + x \<le> of_nat (Suc a)"
      using Cons.prems(4) x by simp
    then show ?thesis
      unfolding fadd_def using True by (intro fl_le_nat) simp_all
  next
    case False
    then have "(2 :: nat) ^ 53 < Suc a" by simp
    then have "(of_nat (2 ^ 53) :: rat) < of_nat (Suc a)"
      by (simp only: of_nat_less_iff)
    with 2 show ?thesis by simp
  qed
  from Cons.prems(1) have "\<forall>x \<in> set xs. 0 \<le> x \<and> x \<le> 1" by simp
  from Cons.IH [OF this 1 2 3] show ?case by simp
qed

lemma py_sum_bound:
  assumes "\<forall>x \<in> set xs. 0 \<le> x \<and> x \<le> 1"
  shows "0 \<le> py_sum xs \<and> py_sum xs \<le> 2 ^ 53 \<and> py_sum xs \<le> of_nat (length xs)"
  using foldl_fadd_bound [OF assms, of 0 0] by (simp add: py_sum_def)

lemma float_of_int_max: "float_of_int (max 1 (int n)) = fl (of_nat (max 1 n))"
  by (simp add: float_of_int_def max_def)

lemma fl_len_lower: "min (of_nat (max 1 n)) (2 ^ 53) \<le> fl (of_nat (max 1 n))"
proof -
  define N where "N = max 1 n"
  have N: "0 < N" by (simp add: N_def)
  have "min (of_nat N) (2 ^ 53) \<le> fl (of_nat N)"
  proof (cases "N \<le> 2 ^ 53")
    case True
    have "of_nat N \<le> fl (of_nat N)"
      using N True by (intro fl_ge_nat) simp_all
    then show ?thesis by (rule min.coboundedI1)
  next
    case False
    then have "(2 :: nat) ^ 53 \<le> N" by simp
    then have "(of_nat (2 ^ 53) :: rat) \<le> of_nat N"
      by (simp only: of_nat_le_iff)
    then have "of_int (2 ^ 52) * pow2 1 \<le> (of_nat N :: rat)"
      by (simp add: pow2_def)
    then have "of_int (2 ^ 52) * pow2 1 \<le> fl (of_nat N)"
      by (intro fl_ge_float) simp_all
    then have "2 ^ 53 \<le> fl (of_nat N)"
      by (simp add: pow2_def)
    then show ?thesis by (rule min.coboundedI2)
  qed
  then show ?thesis by (simp only: N_def)
qed

subsection \<open>The float values of the scenarios\<close>

lemma fl_0_2: "fl (1 / 5) = 3602879701896397 / 18014398509481984"
  using fl_eval [of "1 / 5" "- 3" 7205759403792794] by (simp add: pow2_def)

lemma fl_0_15: "fl (3 / 20) = 5404319552844595 / 36028797018963968"
  using fl_eval [of "3 / 20" "- 3" 5404319552844595] by (simp add: pow2_def)

lemma fl_0_1: "fl (1 / 10) = 3602879701896397 / 36028797018963968"
  using fl_eval [of "1 / 10" "- 4" 7205759403792794] by (simp add: pow2_def)

lemma fl_0_4: "fl (2 / 5) = 3602879701896397 / 9007199254740992"
  using fl_eval [of "2 / 5" "- 2" 7205759403792794] by (simp add: pow2_def)

lemma fl_0_6: "fl (3 / 5) = 5404319552844595 / 9007199254740992"
  using fl_eval [of "3 / 5" "- 1" 5404319552844595] by (simp add: pow2_def)

lemma fl_0_8: "fl (4 / 5) = 3602879701896397 / 4503599627370496"
  using fl_eval [of "4 / 5" "- 1" 7205759403792794] by (simp add: pow2_def)

lemma fl_4: "fl (4) = 4"
  using fl_eval [of "4" 2 4503599627370496] by (simp add: pow2_def)

lemma fl_risk_4_mul: "fl (5404319552844595 / 9007199254740992) = 5404319552844595 / 9007199254740992"
  using fl_eval [of "5404319552844595 / 9007199254740992" "- 1" 5404319552844595] by (simp add: pow2_def)

lemma fl_risk_4_add: "fl (14411518807585587 / 18014398509481984) = 3602879701896397 / 4503599627370496"
  using fl_eval_tie_up [of "14411518807585587 / 18014398509481984" "- 1" 7205759403792794] by (simp add: pow2_def)

lemma fl_risk_4_sub: "fl (3602879701896397 / 4503599627370496) = 3602879701896397 / 4503599627370496"
  using fl_eval [of "3602879701896397 / 4503599627370496" "- 1" 7205759403792794] by (simp add: pow2_def)

lemma fl_half: "fl (1 / 2) = 1 / 2"
  using fl_eval [of "1 / 2" "- 1" 4503599627370496] by (simp add: pow2_def)

lemma fl_kurz_term: "fl (1 / 30) = 4803839602528529 / 144115188075855872"
  using fl_eval [of "1 / 30" "- 5" 4803839602528529] by (simp add: pow2_def)

lemma fl_kurz_sum1: "fl (4803839602528529 / 144115188075855872) = 4803839602528529 / 144115188075855872"
  using fl_eval [of "4803839602528529 / 144115188075855872" "- 5" 4803839602528529] by (simp add: pow2_def)

lemma fl_2: "fl (2) = 2"
  using fl_eval [of "2" 1 4503599627370496] by (simp add: pow2_def)

lemma fl_kurz_depth: "fl (4803839602528529 / 288230376151711744) = 4803839602528529 / 288230376151711744"
  using fl_eval [of "4803839602528529 / 288230376151711744" "- 6" 4803839602528529] by (simp add: pow2_def)

lemma fl_score_a: "fl (3602879701896397 / 18014398509481984) = 3602879701896397 / 18014398509481984"
  using fl_eval [of "3602879701896397 / 18014398509481984" "- 3" 7205759403792794] by (simp add: pow2_def)

lemma fl_score_b: "fl (25961484292674136821596590950755 / 2596148429267413814265248164610048) = 5764607523034235 / 576460752303423488"
  using fl_eval [of "25961484292674136821596590950755 / 2596148429267413814265248164610048" "- 7" 5764607523034235] by (simp add: pow2_def)

lemma fl_score_sum: "fl (121056757983718939 / 576460752303423488) = 3783023686991217 / 18014398509481984"
  using fl_eval [of "121056757983718939 / 576460752303423488" "- 3" 7566047373982434] by (simp add: pow2_def)

lemma fl_100: "fl (100) = 100"
  using fl_eval [of "100" 6 7036874417766400] by (simp add: pow2_def)

lemma fl_score_100: "fl (94575592174780425 / 4503599627370496) = 5910974510923777 / 281474976710656"
  using fl_eval [of "94575592174780425 / 4503599627370496" 4 5910974510923777] by (simp add: pow2_def)

lemma rhe_score: "rhe (29554872554618885 / 140737488355328) = 210"
  using rhe_near [of "29554872554618885 / 140737488355328" 210] by simp

lemma fl_21: "fl (21) = 21"
  using fl_eval [of "21" 4 5910974510923776] by (simp add: pow2_def)

lemma fl_1_60: "fl (1 / 60) = 4803839602528529 / 288230376151711744"
  using fl_eval [of "1 / 60" "- 6" 4803839602528529] by (simp add: pow2_def)

lemma fl_risk_2_mul: "fl (5404319552844595 / 18014398509481984) = 5404319552844595 / 18014398509481984"
  using fl_eval [of "5404319552844595 / 18014398509481984" "- 2" 5404319552844595] by (simp add: pow2_def)

lemma fl_1: "fl (1) = 1"
  using fl_eval [of "1" 0 4503599627370496] by (simp add: pow2_def)


lemmas fl_values = fl_zero fl_0_2 fl_0_15 fl_0_1 fl_0_4 fl_0_6 fl_0_8 fl_4 fl_risk_4_mul fl_risk_4_add fl_risk_4_sub fl_half fl_kurz_term fl_kurz_sum1 fl_2 fl_kurz_depth fl_score_a fl_score_b fl_score_sum fl_100 fl_score_100 fl_21 fl_1_60 fl_risk_2_mul fl_1

lemma risk_score_of_2_2: "risk_score_of 2 2 = 5404319552844595 / 18014398509481984"
  by (simp add: risk_score_of_def fadd_def fsub_def fmul_def float_of_int_def fl_values)

lemma risk_score_of_4_0: "risk_score_of 4 0 = 3602879701896397 / 4503599627370496"
  by (simp add: risk_score_of_def fadd_def fsub_def fmul_def float_of_int_def fl_values)

section \<open>The requests, evaluated\<close>

lemma demo_strip_lower: "lower_latin1 (strip (text_in demo_request)) = demo_lowered"
  by (simp add: demo_request_def demo_lowered_def str_def lower_latin1_def lower_cp_def
      strip_def isspace_def)

lemma demo_nonempty: "strip (text_in demo_request) \<noteq> []"
  by (simp add: demo_request_def str_def strip_def isspace_def)

lemma demo_contains:
  "contains (str ''angst'') demo_lowered"
  "\<not> contains (str ''sorge'') demo_lowered"
  "\<not> contains (str ''problem'') demo_lowered"
  "\<not> contains kw_rueckfall demo_lowered"
  "\<not> contains (str ''unsicher'') demo_lowered"
  "contains (str ''stress'') demo_lowered"
  "\<not> contains (str ''alkohol'') demo_lowered"
  "\<not> contains (str ''drogen'') demo_lowered"
  "contains (str ''vorbereitet'') demo_lowered"
  "contains (str ''bereit'') demo_lowered"
  "\<not> contains (str ''besser'') demo_lowered"
  "\<not> contains kw_veraendert demo_lowered"
  "\<not> contains (str ''therapie'') demo_lowered"
  "\<not> contains (str ''kontrolle'') demo_lowered"
  "\<not> contains (str ''motivation'') demo_lowered"
  by (simp_all add: demo_lowered_def str_def kw_rueckfall_def kw_veraendert_def)

lemma demo_hits:
  "hits negative_keywords demo_lowered = 2" "hits positive_keywords demo_lowered = 2"
  by (simp_all add: hits_def negative_keywords_def positive_keywords_def demo_contains)

lemma demo_key_themes:
  "key_themes_of demo_lowered =
     [str ''angst'', str ''stress'', str ''vorbereitet'', str ''bereit'']"
  by (simp add: key_themes_of_def negative_keywords_def positive_keywords_def demo_contains)

lemma demo_keyword_count:
  "keyword_count negative_keywords demo_lowered = 2"
  "keyword_count positive_keywords demo_lowered = 2"
  using hits_count [OF distinct_negative_keywords, of demo_lowered]
    hits_count [OF distinct_positive_keywords, of demo_lowered]
  by (simp_all add: demo_hits)

lemma crowded_strip_lower: "lower_latin1 (strip (text_in crowded_request)) = crowded_lowered"
  by (simp add: crowded_request_def crowded_lowered_def str_def lower_latin1_def lower_cp_def
      strip_def isspace_def)

lemma crowded_nonempty: "strip (text_in crowded_request) \<noteq> []"
  by (simp add: crowded_request_def str_def strip_def isspace_def)

lemma crowded_contains:
  "contains (str ''angst'') crowded_lowered"
  "contains (str ''sorge'') crowded_lowered"
  "contains (str ''problem'') crowded_lowered"
  "\<not> contains kw_rueckfall crowded_lowered"
  "\<not> contains (str ''unsicher'') crowded_lowered"
  "contains (str ''stress'') crowded_lowered"
  "contains (str ''alkohol'') crowded_lowered"
  "\<not> contains (str ''drogen'') crowded_lowered"
  "contains (str ''vorbereitet'') crowded_lowered"
  "contains (str ''bereit'') crowded_lowered"
  "\<not> contains (str ''besser'') crowded_lowered"
  "\<not> contains kw_veraendert crowded_lowered"
  "\<not> contains (str ''therapie'') crowded_lowered"
  "\<not> contains (str ''kontrolle'') crowded_lowered"
  "\<not> contains (str ''motivation'') crowded_lowered"
  by (simp_all add: crowded_lowered_def str_def kw_rueckfall_def kw_veraendert_def)

lemma crowded_key_themes:
  "key_themes_of crowded_lowered =
     [str ''angst'', str ''sorge'', str ''problem'', str ''stress'', str ''alkohol'',
      str ''vorbereitet'']"
  by (simp add: key_themes_of_def negative_keywords_def positive_keywords_def crowded_contains)

lemma alcohol_strip_lower: "lower_latin1 (strip (text_in alcohol_request)) = alcohol_lowered"
  by (simp add: alcohol_request_def alcohol_lowered_def str_def lower_latin1_def lower_cp_def
      strip_def isspace_def)

lemma alcohol_nonempty: "strip (text_in alcohol_request) \<noteq> []"
  by (simp add: alcohol_request_def str_def strip_def isspace_def)

lemma alcohol_contains:
  "contains (str ''angst'') alcohol_lowered"
  "contains (str ''sorge'') alcohol_lowered"
  "contains (str ''problem'') alcohol_lowered"
  "\<not> contains kw_rueckfall alcohol_lowered"
  "\<not> contains (str ''unsicher'') alcohol_lowered"
  "\<not> contains (str ''stress'') alcohol_lowered"
  "contains (str ''alkohol'') alcohol_lowered"
  "\<not> contains (str ''drogen'') alcohol_lowered"
  "\<not> contains (str ''vorbereitet'') alcohol_lowered"
  "\<not> contains (str ''bereit'') alcohol_lowered"
  "\<not> contains (str ''besser'') alcohol_lowered"
  "\<not> contains kw_veraendert alcohol_lowered"
  "\<not> contains (str ''therapie'') alcohol_lowered"
  "\<not> contains (str ''kontrolle'') alcohol_lowered"
  "\<not> contains (str ''motivation'') alcohol_lowered"
  by (simp_all add: alcohol_lowered_def str_def kw_rueckfall_def kw_veraendert_def)

lemma alcohol_hits:
  "hits negative_keywords alcohol_lowered = 4" "hits positive_keywords alcohol_lowered = 0"
  by (simp_all add: hits_def negative_keywords_def positive_keywords_def alcohol_contains)

lemma alcohol_key_themes:
  "key_themes_of alcohol_lowered =
     [str ''angst'', str ''sorge'', str ''problem'', str ''alkohol'']"
  by (simp add: key_themes_of_def negative_keywords_def positive_keywords_def alcohol_contains)

lemma alcohol_recs:
  "recs_of (3602879701896397 / 4503599627370496) alcohol_lowered 0 =
     [rec_counselling, rec_abstinence, rec_examples]"
  by (simp add: recs_of_def Let_def alcohol_contains fl_values)

lemma kurz_completeness: "completeness_of (answers kurz_submission) = Inr (1 / 2)"
  by (simp add: kurz_submission_def completeness_of_def dict_get_def truediv_def str_def fl_values)

lemma kurz_depth:
  "depth_of (answers kurz_submission) = Inr (4803839602528529 / 288230376151711744)"
  by (simp add: kurz_submission_def depth_of_def depth_term_def dict_get_def truediv_def py_sum_def
      fadd_def float_of_int_def str_def fl_values)

lemma kurz_score: "score_of (1 / 2) (4803839602528529 / 288230376151711744) = 21"
  by (simp add: score_of_def round1_def fadd_def fmul_def float_of_int_def fl_values rhe_score)

lemma kurz_feedback:
  "feedback_of (1 / 2) (4803839602528529 / 288230376151711744) =
     fb_complete @ str '' '' @ fb_deeper"
  by (simp add: feedback_of_def Let_def fl_values)

lemma scores_of_Nil: "completeness_of [] = Inr 0" "depth_of [] = Inr 0"
  by (simp_all add: completeness_of_def depth_of_def py_sum_def truediv_def float_of_int_def
      fl_values)

section \<open>Ranges of the scorer\<close>

lemma completeness_of_range: "\<exists>c. completeness_of ans = Inr c \<and> 0 \<le> c \<and> c \<le> 1"
proof -
  define k where
    "k = length (filter (\<lambda>a. case dict_get a (str ''text'') of None \<Rightarrow> False | Some v \<Rightarrow> truthy v) ans)"
  define N where "N = max 1 (int (length ans))"
  have k: "int k \<le> N" unfolding k_def N_def
    using length_filter_le [of _ ans] by (simp add: le_max_iff_disj)
  have N: "0 < N" by (simp add: N_def)
  have q: "0 \<le> (of_nat k :: rat) / of_int N" "(of_nat k :: rat) / of_int N \<le> 1"
    using k N by (simp_all add: divide_le_eq_1) 
  have "completeness_of ans = Inr (fl (of_nat k / of_int N))"
    using N by (simp add: completeness_of_def truediv_def k_def N_def)
  with q show ?thesis by (simp add: fl_nonneg fl_le_one)
qed

lemma depth_term_range:
  assumes "text_has_len a"
  shows "\<exists>t. depth_term a = Inr t \<and> 0 \<le> t \<and> t \<le> 1"
proof -
  define v where "v = (case dict_get a (str ''text'') of None \<Rightarrow> PStr [] | Some v \<Rightarrow> v)"
  from assms have "has_len v"
    by (simp add: text_has_len_def v_def has_len_def split: option.splits)
  then obtain n where n: "py_len v = Inr n"
    by (cases v) (simp_all add: has_len_def)
  have "depth_term a = Inr (min 1 (fl (of_nat n / 120)))"
    using n by (simp add: depth_term_def v_def [symmetric] truediv_def)
  moreover have "0 \<le> fl (of_nat n / 120)"
    by (intro fl_nonneg) simp
  ultimately show ?thesis by simp
qed

lemma depth_terms_range:
  assumes "\<forall>a \<in> set ans. text_has_len a"
  shows "\<exists>ts. depth_terms ans = Inr ts \<and> length ts = length ans \<and> (\<forall>t \<in> set ts. 0 \<le> t \<and> t \<le> 1)"
  using assms
proof (induction ans)
  case Nil
  then show ?case by simp
next
  case (Cons a ans)
  from Cons.prems depth_term_range [of a] obtain t
    where t: "depth_term a = Inr t" "0 \<le> t" "t \<le> 1" by auto
  from Cons obtain ts
    where ts: "depth_terms ans = Inr ts" "length ts = length ans" "\<forall>t \<in> set ts. 0 \<le> t \<and> t \<le> 1"
    by auto
  from t ts show ?case by simp
qed

lemma depth_of_range:
  assumes "\<forall>a \<in> set ans. text_has_len a"
  shows "\<exists>d. depth_of ans = Inr d \<and> 0 \<le> d \<and> d \<le> 1"
proof -
  from depth_terms_range [OF assms] obtain ts
    where ts: "depth_terms ans = Inr ts" "length ts = length ans" "\<forall>t \<in> set ts. 0 \<le> t \<and> t \<le> 1"
    by auto
  define S where "S = py_sum ts"
  define D where "D = fl (of_nat (max 1 (length ans)))"
  define L :: rat where "L = min (of_nat (max 1 (length ans))) (2 ^ 53)"
  from py_sum_bound [OF ts(3)] have S: "0 \<le> S" "S \<le> 2 ^ 53" "S \<le> of_nat (length ans)"
    by (simp_all add: S_def ts(2))
  have "S \<le> of_nat (max 1 (length ans))"
    using S(3) by (simp add: le_max_iff_disj)
  with S(2) have SL: "S \<le> L" by (simp add: L_def)
  have L1: "1 \<le> L" by (simp add: L_def)
  have LD: "L \<le> D" unfolding L_def D_def by (rule fl_len_lower)
  from L1 LD have D: "0 < D" by simp
  from SL LD have SD: "S \<le> D" by simp
  have q: "0 \<le> S / D" "S / D \<le> 1"
    using S(1) D SD by (simp_all add: divide_le_eq_1)
  have "depth_of ans = Inr (fl (S / D))"
    using D by (simp add: depth_of_def ts(1) truediv_def float_of_int_max S_def D_def)
  with q show ?thesis by (simp add: fl_nonneg fl_le_one)
qed

lemma score_of_range:
  assumes "0 \<le> c" "c \<le> 1" "0 \<le> d" "d \<le> 1"
  shows "0 \<le> score_of c d \<and> score_of c d \<le> 100"
proof -
  define c4 :: rat where "c4 = 3602879701896397 / 9007199254740992"
  define c6 :: rat where "c6 = 5404319552844595 / 9007199254740992"
  define A where "A = fl (c4 * c)"
  define B where "B = fl (c6 * d)"
  define T where "T = fl (A + B)"
  define H where "H = fl (100 * T)"
  define k where "k = rhe (H * 10)"
  have c4: "c4 = of_int 3602879701896397 * pow2 (- 53)" "0 \<le> c4"
    by (simp_all add: c4_def pow2_def)
  have c6: "c6 = of_int 5404319552844595 * pow2 (- 53)" "0 \<le> c6"
    by (simp_all add: c6_def pow2_def)
  have "c4 * c \<le> c4" using assms(2) c4(2) by (simp add: mult_left_le)
  then have "A \<le> c4"
    unfolding A_def c4(1) by (intro fl_le_float) simp_all
  moreover have A0: "0 \<le> A"
    unfolding A_def using assms(1) c4(2) by (intro fl_nonneg) simp
  moreover have "c6 * d \<le> c6" using assms(4) c6(2) by (simp add: mult_left_le)
  then have "B \<le> c6"
    unfolding B_def c6(1) by (intro fl_le_float) simp_all
  moreover have B0: "0 \<le> B"
    unfolding B_def using assms(3) c6(2) by (intro fl_nonneg) simp
  moreover have "c4 + c6 = 1" by (simp add: c4_def c6_def)
  ultimately have AB: "0 \<le> A + B" "A + B \<le> 1" by simp_all
  then have T: "0 \<le> T" "T \<le> 1"
    by (simp_all add: T_def fl_nonneg fl_le_one)
  have "100 * T \<le> of_int 100 * pow2 0" using T(2) by (simp add: pow2_def)
  then have "H \<le> of_int 100 * pow2 0"
    unfolding H_def by (intro fl_le_float) simp_all
  then have H: "0 \<le> H" "H \<le> 100"
    using T(1) by (simp_all add: H_def fl_nonneg pow2_def)
  have "of_int 0 \<le> H * 10" "H * 10 \<le> of_int 1000" using H by simp_all
  then have k: "0 \<le> k" "k \<le> 1000"
    unfolding k_def by (auto intro: rhe_ge rhe_le)
  have q0: "(0 :: rat) \<le> of_int k / 10"
    using k(1) by simp
  have q1: "(of_int k :: rat) / 10 \<le> of_int 100 * pow2 0"
    using k(2) by (simp add: pow2_def)
  have "0 \<le> fl (of_int k / 10)"
    by (rule fl_nonneg [OF q0])
  moreover have "fl (of_int k / 10) \<le> of_int 100 * pow2 0"
    by (rule fl_le_float [OF _ _ q1]) simp_all
  moreover have "score_of c d = fl (of_int k / 10)"
    by (simp add: score_of_def round1_def fmul_def fadd_def float_of_int_def fl_values
        k_def H_def T_def A_def B_def c4_def c6_def)
  ultimately show ?thesis by (simp add: pow2_def)
qed

section \<open>Claims about the text analyzer\<close>

text \<open>
  Claim C3. A request whose text is empty after trimming white space ends with the
  \<open>HTTPException\<close> of status 400, not with an analysis. The store is returned as it was
  given, whatever \<open>create_document\<close> would do with it, so no report is persisted, and the
  result depends neither on \<open>lower\<close> nor on the keyword lists.
\<close>

theorem analyze_text_empty_rejected:
  assumes "strip (text_in payload) = []"
  shows "analyze_text lower create_document payload db =
           (Inl (HTTPException 400 (str ''Text cannot be empty'')), db)"
  using assms by (simp add: analyze_text_def)

theorem analyze_text_empty_rejected_witness:
  "strip (text_in \<lparr>text_in = [32, 9, 10, 160], user_id = None\<rparr>) = [] \<and>
   analyze_text lower_latin1 mem_create \<lparr>text_in = [32, 9, 10, 160], user_id = None\<rparr> [] =
     (Inl (HTTPException 400 (str ''Text cannot be empty'')), [])"
proof -
  have h: "strip (text_in \<lparr>text_in = [32, 9, 10, 160], user_id = None\<rparr>) = []"
    by code_simp
  from h analyze_text_empty_rejected [OF h, of lower_latin1 mem_create "[]"]
  show ?thesis by simp
qed

text \<open>
  Claim C1. For a text that is not empty after trimming, the response carries
  \<open>risk_score = min(1, max(0, 0.2 + 0.15 * neg_hits - 0.1 * pos_hits))\<close>, computed in
  float arithmetic, where \<open>neg_hits\<close> and \<open>pos_hits\<close> are the numbers of negative and
  positive keywords that occur in the lower-cased text as substrings (each keyword counts
  once); so the risk score lies between 0 and 1.
\<close>

theorem analyze_text_risk_score:
  assumes "strip (text_in payload) \<noteq> []"
  shows "let lowered = lower (strip (text_in payload));
             neg_hits = int (keyword_count negative_keywords lowered);
             pos_hits = int (keyword_count positive_keywords lowered)
         in \<exists>r. fst (analyze_text lower create_document payload db) = Inr r \<and>
              risk_score r =
                min 1 (max 0 (fsub (fadd (fl (2 / 10)) (fmul (fl (15 / 100)) (float_of_int neg_hits)))
                                   (fmul (fl (1 / 10)) (float_of_int pos_hits)))) \<and>
              0 \<le> risk_score r \<and> risk_score r \<le> 1"
  unfolding Let_def fst_analyze_text [OF assms]
  by (simp add: risk_score_of_def hits_count distinct_negative_keywords distinct_positive_keywords)

theorem analyze_text_risk_score_witness:
  "strip (text_in demo_request) \<noteq> [] \<and>
   keyword_count negative_keywords (lower_latin1 (strip (text_in demo_request))) = 2 \<and>
   keyword_count positive_keywords (lower_latin1 (strip (text_in demo_request))) = 2 \<and>
   (\<exists>r. fst (analyze_text lower_latin1 mem_create demo_request []) = Inr r \<and>
        risk_score r = 5404319552844595 / 18014398509481984 \<and>
        0 \<le> risk_score r \<and> risk_score r \<le> 1)"
proof -
  from analyze_text_risk_score [OF demo_nonempty, of lower_latin1 mem_create "[]"]
  obtain r where r: "fst (analyze_text lower_latin1 mem_create demo_request []) = Inr r"
    and v: "risk_score r = risk_score_of 2 2" and b: "0 \<le> risk_score r" "risk_score r \<le> 1"
    by (auto simp: Let_def demo_strip_lower demo_keyword_count risk_score_of_def)
  have "risk_score r = 5404319552844595 / 18014398509481984"
    unfolding v by (rule risk_score_of_2_2)
  with r b show ?thesis
    using demo_nonempty by (auto simp: demo_strip_lower demo_keyword_count)
qed

text \<open>
  Claim C2. For a text that is not empty after trimming, the sentiment is \<open>positive\<close>
  exactly when there are more positive than negative hits (and at least one),
  \<open>negative\<close> exactly when there are more negative than positive hits (and at least
  one), and \<open>neutral\<close> in every other case, in particular at a tie, also a tie of zero
  hits.
\<close>

theorem analyze_text_sentiment:
  assumes "strip (text_in payload) \<noteq> []"
  shows "let lowered = lower (strip (text_in payload));
             neg_hits = keyword_count negative_keywords lowered;
             pos_hits = keyword_count positive_keywords lowered
         in \<exists>r. fst (analyze_text lower create_document payload db) = Inr r \<and>
              (sentiment r = str ''positive'' \<longleftrightarrow> pos_hits > neg_hits \<and> pos_hits > 0) \<and>
              (sentiment r = str ''negative'' \<longleftrightarrow> neg_hits > pos_hits \<and> neg_hits > 0) \<and>
              (sentiment r = str ''neutral'' \<longleftrightarrow>
                 \<not> (pos_hits > neg_hits \<and> pos_hits > 0) \<and> \<not> (neg_hits > pos_hits \<and> neg_hits > 0)) \<and>
              (pos_hits = neg_hits \<longrightarrow> sentiment r = str ''neutral'')"
  unfolding Let_def fst_analyze_text [OF assms]
  by (simp add: sentiment_of_def hits_count distinct_negative_keywords distinct_positive_keywords
      str_literals_distinct)


theorem analyze_text_sentiment_witness:
  "strip (text_in demo_request) \<noteq> [] \<and>
   keyword_count negative_keywords (lower_latin1 (strip (text_in demo_request))) = 2 \<and>
   keyword_count positive_keywords (lower_latin1 (strip (text_in demo_request))) = 2 \<and>
   (\<exists>r. fst (analyze_text lower_latin1 mem_create demo_request []) = Inr r \<and>
        sentiment r = str ''neutral'')"
proof -
  from analyze_text_sentiment [OF demo_nonempty, of lower_latin1 mem_create "[]"]
  obtain r where "fst (analyze_text lower_latin1 mem_create demo_request []) = Inr r"
    and "sentiment r = str ''neutral''"
    by (auto simp: Let_def demo_strip_lower demo_keyword_count)
  then show ?thesis
    using demo_nonempty by (auto simp: demo_strip_lower demo_keyword_count)
qed

text \<open>
  Claim C5. For a text that is not empty after trimming, \<open>key_themes\<close> is the first six
  (or fewer) of the keywords that occur in the lower-cased text, taken in the order of the
  fixed list of the eight negative keywords followed by the seven positive ones, not in
  the order of the text.
\<close>

theorem analyze_text_key_themes:
  assumes "strip (text_in payload) \<noteq> []"
  shows "\<exists>r. fst (analyze_text lower create_document payload db) = Inr r \<and>
           key_themes r =
             take 6 (filter (\<lambda>k. occurs_in k (lower (strip (text_in payload))))
                            (negative_keywords @ positive_keywords)) \<and>
           length (key_themes r) \<le> 6 \<and>
           length negative_keywords = 8 \<and> length positive_keywords = 7"
  unfolding fst_analyze_text [OF assms]
  by (simp add: key_themes_of_def contains_iff length_negative_keywords length_positive_keywords)


theorem analyze_text_key_themes_witness:
  "strip (text_in demo_request) \<noteq> [] \<and>
   (\<exists>r. fst (analyze_text lower_latin1 mem_create demo_request []) = Inr r \<and>
        key_themes r = [str ''angst'', str ''stress'', str ''vorbereitet'', str ''bereit''])"
proof -
  from analyze_text_key_themes [OF demo_nonempty, of lower_latin1 mem_create "[]"]
  obtain r where r: "fst (analyze_text lower_latin1 mem_create demo_request []) = Inr r"
    and "key_themes r = take 6 (filter (\<lambda>k. occurs_in k demo_lowered)
                                      (negative_keywords @ positive_keywords))"
    unfolding demo_strip_lower by blast
  then have "key_themes r = key_themes_of demo_lowered"
    by (simp only: key_themes_of_def contains_iff)
  then have "key_themes r = [str ''angst'', str ''stress'', str ''vorbereitet'', str ''bereit'']"
    by (simp only: demo_key_themes)
  with r demo_nonempty show ?thesis by blast
qed

text \<open>
  Claim C10, as stated, fails: \<open>key_themes\<close> keeps six keywords only. A text with five
  negative keywords and \<open>vorbereitet\<close> gets the five negative keywords and
  \<open>vorbereitet\<close>, and \<open>bereit\<close> is cut off.
\<close>

theorem bereit_dropped_counterexample:
  "strip (text_in crowded_request) \<noteq> [] \<and>
   contains (str ''vorbereitet'') (lower_latin1 (strip (text_in crowded_request))) \<and>
   map_sum id key_themes (fst (analyze_text lower_latin1 mem_create crowded_request [])) =
     Inr [str ''angst'', str ''sorge'', str ''problem'', str ''stress'', str ''alkohol'',
          str ''vorbereitet''] \<and>
   str ''bereit'' \<notin> set [str ''angst'', str ''sorge'', str ''problem'', str ''stress'',
                            str ''alkohol'', str ''vorbereitet'']"
  by (simp add: fst_analyze_text [OF crowded_nonempty] crowded_nonempty crowded_strip_lower
      crowded_contains crowded_key_themes) (simp add: str_def)

text \<open>
  Claim C10, amended. When the lower-cased text contains \<open>vorbereitet\<close> it contains
  \<open>bereit\<close> too, so both count and \<open>pos_hits\<close> is at least 2. With at most four
  negative hits both are in \<open>key_themes\<close>, \<open>vorbereitet\<close> right after the negative
  hits and \<open>bereit\<close> next to it; with five negative hits only \<open>vorbereitet\<close> is
  (in the last place), and with six or more neither is.
\<close>

theorem vorbereitet_counts_twice:
  assumes "strip (text_in payload) \<noteq> []"
    and "occurs_in (str ''vorbereitet'') (lower (strip (text_in payload)))"
  shows "let lowered = lower (strip (text_in payload));
             neg_hits = keyword_count negative_keywords lowered;
             pos_hits = keyword_count positive_keywords lowered
         in occurs_in (str ''bereit'') lowered \<and> 2 \<le> pos_hits \<and>
            (\<exists>r. fst (analyze_text lower create_document payload db) = Inr r \<and>
               (neg_hits \<le> 4 \<longrightarrow>
                  Suc neg_hits < length (key_themes r) \<and>
                  key_themes r ! neg_hits = str ''vorbereitet'' \<and>
                  key_themes r ! Suc neg_hits = str ''bereit'') \<and>
               (neg_hits = 5 \<longrightarrow>
                  length (key_themes r) = 6 \<and> key_themes r ! 5 = str ''vorbereitet'' \<and>
                  str ''bereit'' \<notin> set (key_themes r)) \<and>
               (6 \<le> neg_hits \<longrightarrow>
                  str ''vorbereitet'' \<notin> set (key_themes r) \<and>
                  str ''bereit'' \<notin> set (key_themes r)))"
proof -
  define s where "s = lower (strip (text_in payload))"
  define A where "A = filter (\<lambda>k. contains k s) negative_keywords"
  have occ: "occurs_in (str ''vorbereitet'') s"
    using assms(2) by (simp add: s_def)
  from key_themes_with_vorbereitet [OF occ] obtain R
    where kt: "key_themes_of s = take 6 (A @ str ''vorbereitet'' # str ''bereit'' # R)"
      and pos: "filter (\<lambda>k. contains k s) positive_keywords =
                  str ''vorbereitet'' # str ''bereit'' # R"
    unfolding A_def by blast
  have lenA: "length A = keyword_count negative_keywords s"
    unfolding A_def by (rule length_filter_keyword_count [OF distinct_negative_keywords])
  have setA: "set A \<subseteq> set negative_keywords"
    unfolding A_def by auto
  have "keyword_count positive_keywords s = length (str ''vorbereitet'' # str ''bereit'' # R)"
    using length_filter_keyword_count [OF distinct_positive_keywords, of s] pos by simp
  then have p2: "2 \<le> keyword_count positive_keywords s"
    by simp
  have small: "Suc (length A) < length (key_themes_of s) \<and>
               key_themes_of s ! length A = str ''vorbereitet'' \<and>
               key_themes_of s ! Suc (length A) = str ''bereit''" if "length A \<le> 4"
    using that by (simp add: kt nth_append)
  have five: "length (key_themes_of s) = 6 \<and> key_themes_of s ! 5 = str ''vorbereitet'' \<and>
              str ''bereit'' \<notin> set (key_themes_of s)" if "length A = 5"
  proof -
    from that have "key_themes_of s = A @ [str ''vorbereitet'']"
      by (simp add: kt)
    with that setA positive_not_negative show ?thesis
      by (auto simp: nth_append)
  qed
  have many: "str ''vorbereitet'' \<notin> set (key_themes_of s) \<and>
              str ''bereit'' \<notin> set (key_themes_of s)" if "6 \<le> length A"
  proof -
    from that have "key_themes_of s = take 6 A"
      by (simp add: kt)
    then have "set (key_themes_of s) \<subseteq> set negative_keywords"
      using setA set_take_subset [of 6 A] by auto
    with positive_not_negative show ?thesis by auto
  qed
  show ?thesis
    unfolding Let_def fst_analyze_text [OF assms(1)] s_def [symmetric]
    using vorbereitet_bereit [OF occ] p2 small five many
    by (simp add: lenA)
qed

theorem vorbereitet_counts_twice_witness:
  "strip (text_in demo_request) \<noteq> [] \<and>
   occurs_in (str ''vorbereitet'') (lower_latin1 (strip (text_in demo_request))) \<and>
   keyword_count negative_keywords (lower_latin1 (strip (text_in demo_request))) = 2 \<and>
   (\<exists>r. fst (analyze_text lower_latin1 mem_create demo_request []) = Inr r \<and>
        key_themes r ! 2 = str ''vorbereitet'' \<and> key_themes r ! 3 = str ''bereit'')"
proof -
  have occ: "occurs_in (str ''vorbereitet'') (lower_latin1 (strip (text_in demo_request)))"
    by (simp add: demo_strip_lower contains_iff [symmetric] demo_contains)
  from vorbereitet_counts_twice [where payload = demo_request and lower = lower_latin1
      and create_document = mem_create and db = "[]", OF demo_nonempty occ]
  obtain r where "fst (analyze_text lower_latin1 mem_create demo_request []) = Inr r"
    and "key_themes r ! 2 = str ''vorbereitet''" and "key_themes r ! 3 = str ''bereit''"
    by (auto simp: Let_def demo_strip_lower demo_keyword_count eval_nat_numeral)
  with demo_nonempty occ show ?thesis
    by (auto simp: demo_strip_lower demo_keyword_count)
qed

text \<open>
  Claim C9. The text \<open>Ich habe gro\<ss>e Angst und Sorge wegen meines Alkohol-Problems\<close>
  has the four negative hits \<open>angst\<close>, \<open>sorge\<close>, \<open>problem\<close>, \<open>alkohol\<close> and no
  positive hit; the sentiment is \<open>negative\<close>, the risk score is the float \<open>0.8\<close>
  (which is what \<open>min(1, 0.2 + 0.15 * 4)\<close> gives in float arithmetic), and the
  recommendations are the counselling string, the abstinence documentation string and
  the examples string.
\<close>

theorem alcohol_scenario:
  "keyword_count negative_keywords (lower_latin1 (strip (text_in alcohol_request))) = 4 \<and>
   keyword_count positive_keywords (lower_latin1 (strip (text_in alcohol_request))) = 0 \<and>
   fst (analyze_text lower_latin1 mem_create alcohol_request []) =
     Inr \<lparr>sentiment = str ''negative'', risk_score = fl (8 / 10),
          key_themes = [str ''angst'', str ''sorge'', str ''problem'', str ''alkohol''],
          recommendations = [rec_counselling, rec_abstinence, rec_examples],
          doc_id = Some 0\<rparr> \<and>
   fl (8 / 10) = 3602879701896397 / 4503599627370496 \<and>
   fl (8 / 10) = min 1 (fadd (fl (2 / 10)) (fmul (fl (15 / 100)) 4))"
proof -
  have n: "keyword_count negative_keywords alcohol_lowered = 4"
    using hits_count [OF distinct_negative_keywords, of alcohol_lowered] by (simp add: alcohol_hits)
  have p: "keyword_count positive_keywords alcohol_lowered = 0"
    using hits_count [OF distinct_positive_keywords, of alcohol_lowered] by (simp add: alcohol_hits)
  have r: "fst (analyze_text lower_latin1 mem_create alcohol_request []) =
     Inr \<lparr>sentiment = str ''negative'', risk_score = 3602879701896397 / 4503599627370496,
          key_themes = [str ''angst'', str ''sorge'', str ''problem'', str ''alkohol''],
          recommendations = [rec_counselling, rec_abstinence, rec_examples],
          doc_id = Some 0\<rparr>"
    by (simp add: fst_analyze_text [OF alcohol_nonempty] alcohol_strip_lower alcohol_hits
        alcohol_key_themes risk_score_of_4_0 alcohol_recs sentiment_of_def mem_create_def)
  have m: "min 1 (fadd (fl (2 / 10)) (fmul (fl (15 / 100)) 4)) = 3602879701896397 / 4503599627370496"
    by (simp add: fadd_def fmul_def fl_values)
  show ?thesis
    unfolding alcohol_strip_lower n p r m by (simp add: fl_values)
qed

section \<open>Claims about persistence failures\<close>

text \<open>
  Claim C4. When its call of \<open>create_document\<close> raises, each handler that persists still
  returns its computed response, with the id field \<open>None\<close>: the analysis with its four
  computed fields, the checklist item with its title and \<open>completed = False\<close>, the started
  session with its questions, and the submitted session with its score and feedback (once
  the answers have been scored, which happens before the store is called). Only the one
  call that the handler makes, with the collection and the document it passes, is taken to
  raise; what the store does on any other call is left open.
\<close>

theorem persistence_failure_swallowed:
  "(let txt = strip (text_in a);
        lowered = lower txt;
        neg_hits = hits negative_keywords lowered;
        pos_hits = hits positive_keywords lowered;
        sent = sentiment_of neg_hits pos_hits;
        risk = risk_score_of neg_hits pos_hits;
        themes = key_themes_of lowered;
        recs = recs_of risk lowered pos_hits
    in txt \<noteq> [] \<longrightarrow>
       (\<exists>e. fst (create_document (str ''analysisreport'')
                 (AnalysisReportDoc
                    \<lparr>ar_user_id = user_id a, ar_input_text = txt, ar_sentiment = sent,
                     ar_risk_score = risk, ar_key_themes = themes,
                     ar_recommendations = recs\<rparr>) db) = Inl e) \<longrightarrow>
       fst (analyze_text lower create_document a db) =
         Inr \<lparr>sentiment = sent, risk_score = risk, key_themes = themes,
              recommendations = recs, doc_id = None\<rparr>) \<and>
   ((\<exists>e. fst (create_document (str ''checklistitem'')
              (ChecklistItemDoc
                 \<lparr>ci_user_id = cc_user_id c, ci_title = cc_title c, ci_completed = False\<rparr>)
              db) = Inl e) \<longrightarrow>
    fst (add_checklist_item create_document c db) =
      Inr \<lparr>item_id = None, title = cc_title c, completed = False\<rparr>) \<and>
   ((\<exists>e. fst (create_document (str ''trainingsession'')
              (TrainingSessionDoc
                 \<lparr>ts_user_id = u, ts_status = str ''started'', ts_questions = questions,
                  ts_answers = None, ts_score = None, ts_feedback = None\<rparr>) db) = Inl e) \<longrightarrow>
    fst (start_session create_document u db) =
      Inr \<lparr>session_id_out = None, questions_out = questions\<rparr>) \<and>
   (\<forall>completeness depth.
      completeness_of (answers s) = Inr completeness \<longrightarrow>
      depth_of (answers s) = Inr depth \<longrightarrow>
      (\<exists>e. fst (create_document (str ''trainingsession'')
                (TrainingSessionDoc
                   \<lparr>ts_user_id = submit_user_id s, ts_status = str ''submitted'',
                    ts_questions = [], ts_answers = Some (answers s),
                    ts_score = Some (score_of completeness depth),
                    ts_feedback = Some (feedback_of completeness depth)\<rparr>) db) = Inl e) \<longrightarrow>
      fst (submit_session create_document s db) =
        Inr \<lparr>score = score_of completeness depth,
             feedback = feedback_of completeness depth, res_id = None\<rparr>)"
proof (intro conjI)
  show "let txt = strip (text_in a);
            lowered = lower txt;
            neg_hits = hits negative_keywords lowered;
            pos_hits = hits positive_keywords lowered;
            sent = sentiment_of neg_hits pos_hits;
            risk = risk_score_of neg_hits pos_hits;
            themes = key_themes_of lowered;
            recs = recs_of risk lowered pos_hits
        in txt \<noteq> [] \<longrightarrow>
           (\<exists>e. fst (create_document (str ''analysisreport'')
                     (AnalysisReportDoc
                        \<lparr>ar_user_id = user_id a, ar_input_text = txt, ar_sentiment = sent,
                         ar_risk_score = risk, ar_key_themes = themes,
                         ar_recommendations = recs\<rparr>) db) = Inl e) \<longrightarrow>
           fst (analyze_text lower create_document a db) =
             Inr \<lparr>sentiment = sent, risk_score = risk, key_themes = themes,
                  recommendations = recs, doc_id = None\<rparr>"
    unfolding Let_def
  proof (intro impI)
    assume ne: "strip (text_in a) \<noteq> []"
    assume "\<exists>e. fst (create_document (str ''analysisreport'')
                 (AnalysisReportDoc
                    \<lparr>ar_user_id = user_id a, ar_input_text = strip (text_in a),
                     ar_sentiment =
                       sentiment_of (hits negative_keywords (lower (strip (text_in a))))
                                    (hits positive_keywords (lower (strip (text_in a)))),
                     ar_risk_score =
                       risk_score_of (hits negative_keywords (lower (strip (text_in a))))
                                     (hits positive_keywords (lower (strip (text_in a)))),
                     ar_key_themes = key_themes_of (lower (strip (text_in a))),
                     ar_recommendations =
                       recs_of (risk_score_of (hits negative_keywords (lower (strip (text_in a))))
                                              (hits positive_keywords (lower (strip (text_in a)))))
                               (lower (strip (text_in a)))
                               (hits positive_keywords (lower (strip (text_in a))))\<rparr>) db) = Inl e"
    then obtain e where "fst (create_document (str ''analysisreport'')
                 (AnalysisReportDoc
                    \<lparr>ar_user_id = user_id a, ar_input_text = strip (text_in a),
                     ar_sentiment =
                       sentiment_of (hits negative_keywords (lower (strip (text_in a))))
                                    (hits positive_keywords (lower (strip (text_in a)))),
                     ar_risk_score =
                       risk_score_of (hits negative_keywords (lower (strip (text_in a))))
                                     (hits positive_keywords (lower (strip (text_in a)))),
                     ar_key_themes = key_themes_of (lower (strip (text_in a))),
                     ar_recommendations =
                       recs_of (risk_score_of (hits negative_keywords (lower (strip (text_in a))))
                                              (hits positive_keywords (lower (strip (text_in a)))))
                               (lower (strip (text_in a)))
                               (hits positive_keywords (lower (strip (text_in a))))\<rparr>) db) = Inl e" ..
    then show "fst (analyze_text lower create_document a db) =
        Inr \<lparr>sentiment = sentiment_of (hits negative_keywords (lower (strip (text_in a))))
                                      (hits positive_keywords (lower (strip (text_in a)))),
             risk_score = risk_score_of (hits negative_keywords (lower (strip (text_in a))))
                                        (hits positive_keywords (lower (strip (text_in a)))),
             key_themes = key_themes_of (lower (strip (text_in a))),
             recommendations =
               recs_of (risk_score_of (hits negative_keywords (lower (strip (text_in a))))
                                      (hits positive_keywords (lower (strip (text_in a)))))
                       (lower (strip (text_in a)))
                       (hits positive_keywords (lower (strip (text_in a)))),
             doc_id = None\<rparr>"
      by (simp add: fst_analyze_text [OF ne])
  qed
next
  show "(\<exists>e. fst (create_document (str ''checklistitem'')
              (ChecklistItemDoc
                 \<lparr>ci_user_id = cc_user_id c, ci_title = cc_title c, ci_completed = False\<rparr>)
              db) = Inl e) \<longrightarrow>
    fst (add_checklist_item create_document c db) =
      Inr \<lparr>item_id = None, title = cc_title c, completed = False\<rparr>"
    by (auto simp add: add_checklist_item_def Let_def case_prod_beta)
next
  show "(\<exists>e. fst (create_document (str ''trainingsession'')
              (TrainingSessionDoc
                 \<lparr>ts_user_id = u, ts_status = str ''started'', ts_questions = questions,
                  ts_answers = None, ts_score = None, ts_feedback = None\<rparr>) db) = Inl e) \<longrightarrow>
    fst (start_session create_document u db) =
      Inr \<lparr>session_id_out = None, questions_out = questions\<rparr>"
    by (auto simp add: start_session_def TrainingSession_new_ok case_prod_beta)
next
  show "\<forall>completeness depth.
      completeness_of (answers s) = Inr completeness \<longrightarrow>
      depth_of (answers s) = Inr depth \<longrightarrow>
      (\<exists>e. fst (create_document (str ''trainingsession'')
                (TrainingSessionDoc
                   \<lparr>ts_user_id = submit_user_id s, ts_status = str ''submitted'',
                    ts_questions = [], ts_answers = Some (answers s),
                    ts_score = Some (score_of completeness depth),
                    ts_feedback = Some (feedback_of completeness depth)\<rparr>) db) = Inl e) \<longrightarrow>
      fst (submit_session create_document s db) =
        Inr \<lparr>score = score_of completeness depth,
             feedback = feedback_of completeness depth, res_id = None\<rparr>"
    by (auto simp add: submit_session_def Let_def TrainingSession_new_ok case_prod_beta)
qed

theorem persistence_failure_swallowed_witness:
  "strip (text_in demo_request) \<noteq> [] \<and>
   (\<exists>e. fst (down_create (str ''analysisreport'')
             (AnalysisReportDoc
                \<lparr>ar_user_id = None, ar_input_text = strip (text_in demo_request),
                 ar_sentiment = str ''neutral'', ar_risk_score = risk_score_of 2 2,
                 ar_key_themes =
                   [str ''angst'', str ''stress'', str ''vorbereitet'', str ''bereit''],
                 ar_recommendations = recs_of (risk_score_of 2 2) demo_lowered 2\<rparr>) []) =
           Inl e) \<and>
   fst (analyze_text lower_latin1 down_create demo_request []) =
     Inr \<lparr>sentiment = str ''neutral'', risk_score = risk_score_of 2 2,
          key_themes = [str ''angst'', str ''stress'', str ''vorbereitet'', str ''bereit''],
          recommendations = recs_of (risk_score_of 2 2) demo_lowered 2,
          doc_id = None\<rparr> \<and>
   (\<exists>e. fst (down_create (str ''checklistitem'')
             (ChecklistItemDoc
                \<lparr>ci_user_id = str ''u1'', ci_title = str ''Termin vereinbaren'',
                 ci_completed = False\<rparr>) []) = Inl e) \<and>
   fst (add_checklist_item down_create termin_item []) =
     Inr \<lparr>item_id = None, title = str ''Termin vereinbaren'', completed = False\<rparr> \<and>
   (\<exists>e. fst (down_create (str ''trainingsession'')
             (TrainingSessionDoc
                \<lparr>ts_user_id = str ''u1'', ts_status = str ''started'', ts_questions = questions,
                 ts_answers = None, ts_score = None, ts_feedback = None\<rparr>) []) = Inl e) \<and>
   fst (start_session down_create (str ''u1'') []) =
     Inr \<lparr>session_id_out = None, questions_out = questions\<rparr> \<and>
   completeness_of (answers empty_submission) = Inr 0 \<and>
   depth_of (answers empty_submission) = Inr 0 \<and>
   (\<exists>e. fst (down_create (str ''trainingsession'')
             (TrainingSessionDoc
                \<lparr>ts_user_id = submit_user_id empty_submission, ts_status = str ''submitted'',
                 ts_questions = [], ts_answers = Some [],
                 ts_score = Some (score_of 0 0), ts_feedback = Some (feedback_of 0 0)\<rparr>) []) =
           Inl e) \<and>
   fst (submit_session down_create empty_submission []) =
     Inr \<lparr>score = score_of 0 0, feedback = feedback_of 0 0, res_id = None\<rparr>"
proof -
  have down: "\<exists>e. fst (down_create k d []) = Inl e" for k d
    by (simp add: down_create_def)
  have d0: "completeness_of (answers empty_submission) = Inr 0"
    "depth_of (answers empty_submission) = Inr 0"
    by (simp_all add: empty_submission_def scores_of_Nil)
  from persistence_failure_swallowed [where create_document = down_create and db = "[]"
      and a = demo_request and lower = lower_latin1 and c = termin_item and u = "str ''u1''"
      and s = empty_submission]
  show ?thesis
    using down d0
    by (simp add: Let_def demo_nonempty demo_strip_lower demo_hits demo_key_themes
        sentiment_of_def termin_item_def empty_submission_def)
qed

text \<open>
  Claim C6. When \<open>get_documents\<close> raises, the checklist handler returns the fixed list
  of three demo items, each with \<open>completed = False\<close>, and no error; when it returns no
  item, the handler returns the empty list, not the demo list.
\<close>

theorem get_checklist_fallback:
  "((\<exists>e. fst (get_documents (str ''checklistitem'') [(str ''user_id'', PStr uid)] 100 db) = Inl e)
      \<longrightarrow> fst (get_checklist str_of get_documents uid db) = Inr stub_checklist) \<and>
   (fst (get_documents (str ''checklistitem'') [(str ''user_id'', PStr uid)] 100 db) = Inr []
      \<longrightarrow> fst (get_checklist str_of get_documents uid db) = Inr []) \<and>
   length stub_checklist = 3 \<and>
   (\<forall>it \<in> set stub_checklist. dict_get it (str ''completed'') = Some (PBool False))"
proof (intro conjI impI)
  assume "\<exists>e. fst (get_documents (str ''checklistitem'') [(str ''user_id'', PStr uid)] 100 db) = Inl e"
  then show "fst (get_checklist str_of get_documents uid db) = Inr stub_checklist"
    by (auto simp: get_checklist_def split: prod.split sum.split)
next
  assume "fst (get_documents (str ''checklistitem'') [(str ''user_id'', PStr uid)] 100 db) = Inr []"
  then show "fst (get_checklist str_of get_documents uid db) = Inr []"
    by (auto simp: get_checklist_def split: prod.split sum.split)
next
  show "length stub_checklist = 3"
    by (simp add: stub_checklist_def)
next
  show "\<forall>it \<in> set stub_checklist. dict_get it (str ''completed'') = Some (PBool False)"
    by (simp add: stub_checklist_def dict_get_def str_def)
qed

theorem get_checklist_fallback_witness:
  "(\<exists>e. fst (down_get (str ''checklistitem'') [(str ''user_id'', PStr (str ''u1''))] 100 []) = Inl e) \<and>
   fst (get_checklist str_of_id down_get (str ''u1'') []) = Inr stub_checklist \<and>
   fst (empty_get (str ''checklistitem'') [(str ''user_id'', PStr (str ''u1''))] 100 []) = Inr [] \<and>
   fst (get_checklist str_of_id empty_get (str ''u1'') []) = Inr [] \<and>
   stub_checklist \<noteq> []"
proof -
  have down: "\<exists>e. fst (down_get (str ''checklistitem'') [(str ''user_id'', PStr (str ''u1''))] 100 [])
                 = Inl e"
    by (simp add: down_get_def)
  have empty: "fst (empty_get (str ''checklistitem'') [(str ''user_id'', PStr (str ''u1''))] 100 [])
                 = Inr []"
    by (simp add: empty_get_def)
  have stub: "stub_checklist \<noteq> []"
    by (simp add: stub_checklist_def)
  from get_checklist_fallback [of down_get "str ''u1''" "[]" str_of_id]
    get_checklist_fallback [of empty_get "str ''u1''" "[]" str_of_id] down empty stub
  show ?thesis by blast
qed

section \<open>Claims about the session scorer\<close>

text \<open>
  Claim C8. For \<open>answers = [{"text": "kurz"}, {}]\<close> the completeness is \<open>0.5\<close>, the
  depth is \<open>(min(1, 4/120) + 0) / 2\<close>, which is the float \<open>1/60\<close>, the score
  \<open>round(100 * (0.4 * 0.5 + 0.6 * depth), 1)\<close> is exactly \<open>21.0\<close>, and the feedback
  is the completeness sentence, one space, and the depth sentence.
\<close>

theorem kurz_scenario:
  "completeness_of (answers kurz_submission) = Inr (1 / 2) \<and>
   depth_of (answers kurz_submission) = Inr (fl (1 / 60)) \<and>
   fst (submit_session mem_create kurz_submission []) =
     Inr \<lparr>score = 21, feedback = fb_complete @ str '' '' @ fb_deeper, res_id = Some 0\<rparr> \<and>
   round1 (fmul (float_of_int 100) (fadd (fmul (fl (4 / 10)) (1 / 2)) (fmul (fl (6 / 10)) (fl (1 / 60))))) = 21"
proof -
  have s: "fst (submit_session mem_create kurz_submission []) =
     Inr \<lparr>score = 21, feedback = fb_complete @ str '' '' @ fb_deeper, res_id = Some 0\<rparr>"
    by (simp add: submit_session_def Let_def kurz_completeness kurz_depth kurz_score kurz_feedback
        TrainingSession_new_ok mem_create_def)
  have d: "fl (1 / 60) = 4803839602528529 / 288230376151711744"
    by (simp add: fl_values)
  show ?thesis
    unfolding d s kurz_completeness kurz_depth kurz_score
    using kurz_score by (simp add: score_of_def)
qed

text \<open>
  Claim C7, as stated, fails: \<open>answers\<close> is a list of arbitrary dicts, and an answer
  whose \<open>text\<close> is a number makes \<open>len\<close> raise a \<open>TypeError\<close> in the depth sum;
  the handler ends with that error and stores nothing.
\<close>

theorem submit_session_type_error_counterexample:
  "depth_of (answers number_submission) = Inl TypeError \<and>
   submit_session mem_create number_submission [] = (Inl TypeError, [])"
  by (simp add: number_submission_def submit_session_def completeness_of_def depth_of_def
      depth_term_def dict_get_def truediv_def Let_def str_def)

text \<open>
  Claim C7, amended. For every list of answers, the empty one included, in which each
  \<open>text\<close> is absent or a value with a length (a string, a list or a dict): the
  divisor \<open>max(1, len(answers))\<close> is not zero, so neither division raises;
  completeness and depth lie between 0 and 1; and the handler returns a score between 0
  and 100. The bounds hold for the rounded floats, not only for the exact quotients.
\<close>

theorem submit_session_ranges:
  assumes "\<forall>a \<in> set (answers s). text_has_len a"
  shows "float_of_int (max 1 (int (length (answers s)))) \<noteq> 0 \<and>
         (\<exists>c d r. completeness_of (answers s) = Inr c \<and> 0 \<le> c \<and> c \<le> 1 \<and>
                  depth_of (answers s) = Inr d \<and> 0 \<le> d \<and> d \<le> 1 \<and>
                  fst (submit_session create_document s db) = Inr r \<and>
                  score r = score_of c d \<and> 0 \<le> score r \<and> score r \<le> 100)"
proof -
  from completeness_of_range obtain c
    where c: "completeness_of (answers s) = Inr c" "0 \<le> c" "c \<le> 1" by blast
  from depth_of_range [OF assms] obtain d
    where d: "depth_of (answers s) = Inr d" "0 \<le> d" "d \<le> 1" by blast
  have "1 \<le> min (of_nat (max 1 (length (answers s)))) ((2 :: rat) ^ 53)"
    by simp
  with fl_len_lower [of "length (answers s)"]
  have nz: "float_of_int (max 1 (int (length (answers s)))) \<noteq> 0"
    unfolding float_of_int_max by linarith
  have "fst (submit_session create_document s db) =
          Inr \<lparr>score = score_of c d, feedback = feedback_of c d,
               res_id = (case fst (create_document (str ''trainingsession'')
                   (TrainingSessionDoc \<lparr>ts_user_id = submit_user_id s, ts_status = str ''submitted'',
                      ts_questions = [], ts_answers = Some (answers s),
                      ts_score = Some (score_of c d), ts_feedback = Some (feedback_of c d)\<rparr>) db)
                 of Inl e \<Rightarrow> None | Inr i \<Rightarrow> Some i)\<rparr>"
    by (simp add: submit_session_def Let_def c(1) d(1) TrainingSession_new_ok case_prod_beta)
  with c d nz score_of_range [OF c(2,3) d(2,3)] show ?thesis by simp
qed

theorem submit_session_ranges_witness:
  "answers kurz_submission = [[(str ''text'', PStr (str ''kurz''))], []] \<and>
   text_has_len [(str ''text'', PStr (str ''kurz''))] \<and> text_has_len [] \<and>
   (\<exists>r. fst (submit_session mem_create kurz_submission []) = Inr r \<and>
        score r = 21 \<and> 0 \<le> score r \<and> score r \<le> 100)"
proof -
  have h: "\<forall>a \<in> set (answers kurz_submission). text_has_len a"
    by (simp add: kurz_submission_def text_has_len_def has_len_def dict_get_def str_def)
  from submit_session_ranges [OF h, of mem_create "[]"] obtain c d r
    where cc: "completeness_of (answers kurz_submission) = Inr c"
      and dd: "depth_of (answers kurz_submission) = Inr d"
      and r: "fst (submit_session mem_create kurz_submission []) = Inr r"
        "score r = score_of c d" "0 \<le> score r" "score r \<le> 100"
    by blast
  have c: "c = 1 / 2"
    using cc by (simp add: kurz_completeness)
  have d: "d = 4803839602528529 / 288230376151711744"
    using dd by (simp add: kurz_depth)
  have "score_of c d = 21"
    unfolding c d by (rule kurz_score)
  moreover have "answers kurz_submission = [[(str ''text'', PStr (str ''kurz''))], []]"
    by (simp add: kurz_submission_def)
  moreover have "text_has_len [(str ''text'', PStr (str ''kurz''))]" "text_has_len []"
    by (simp_all add: text_has_len_def has_len_def dict_get_def)
  ultimately show ?thesis using r by auto
qed

end
